theory Spec2Isabelle
  imports Main "HOL-Library.Sublist"
begin

section \<open>Text\<close>

text \<open>
  Python \<^verbatim>\<open>str\<close> values are modelled as \<^typ>\<open>string\<close>, restricted to ASCII text.
  \<^verbatim>\<open>s.startswith(p)\<close> is \<^term>\<open>prefix p s\<close>, \<^verbatim>\<open>p in s\<close> is \<^term>\<open>sublist p s\<close>,
  \<^verbatim>\<open>s[n:]\<close> is \<^term>\<open>drop n s\<close> and \<^verbatim>\<open>s[:n]\<close> is \<^term>\<open>take n s\<close>.
\<close>

definition ascii :: "string \<Rightarrow> bool" where
  "ascii s \<longleftrightarrow> (\<forall>c \<in> set s. (of_char c :: nat) < 128)"

definition isspace :: "char \<Rightarrow> bool" where
  "isspace c \<longleftrightarrow> c \<in> set [CHR 0x09, CHR 0x0A, CHR 0x0B, CHR 0x0C, CHR 0x0D,
                          CHR 0x1C, CHR 0x1D, CHR 0x1E, CHR 0x1F, CHR 0x20]"

definition strip :: "string \<Rightarrow> string" where
  "strip s = rev (dropWhile isspace (rev (dropWhile isspace s)))"

definition upper_char :: "char \<Rightarrow> char" where
  "upper_char c =
     (case map_of (zip ''abcdefghijklmnopqrstuvwxyz'' ''ABCDEFGHIJKLMNOPQRSTUVWXYZ'') c of
        Some u \<Rightarrow> u
      | None \<Rightarrow> c)"

text \<open>
  \<^verbatim>\<open>s.upper()\<close>. On ASCII text it maps the letters a to z to A to Z and keeps every other
  character. On text with a character outside ASCII Python follows the case mapping of
  Unicode, which is no map of single characters and is not part of this model: there the
  result is left unspecified.
\<close>

definition unicode_upper :: "string \<Rightarrow> string" where
  "unicode_upper = undefined"

definition upper :: "string \<Rightarrow> string" where
  "upper s = (if ascii s then map upper_char s else unicode_upper s)"

section \<open>Exceptions and the outside world\<close>

text \<open>
  A raised instance of Python's \<^verbatim>\<open>Exception\<close> class, carrying the text \<^verbatim>\<open>str(e)\<close>.
  A computation that may raise returns \<open>Inl e\<close>.
\<close>

datatype exn = Exception (str: string)

text \<open>
  What one call of \<^verbatim>\<open>client.chat.completions.create\<close> does: it raises, or it returns a
  response whose \<^verbatim>\<open>choices[i].message.content\<close> are listed (\<open>None\<close> for a null content).
\<close>

datatype api_outcome = Raises exn | Response "string option list"

text \<open>
  The environment of a run: the global \<^verbatim>\<open>TESTING_MODE\<close> flag, and the outcome of the
  \<open>k\<close>-th construction of \<^verbatim>\<open>LLMManager()\<close>, of the \<open>k\<close>-th completion request, of the
  \<open>k\<close>-th \<^verbatim>\<open>input()\<close> and of the \<open>k\<close>-th console event of \<^verbatim>\<open>process_request\<close>, with the
  number of each consumed so far. The completion service is not a function of the prompt
  it is sent, so prompts are not part of the model.
\<close>

record world =
  TESTING_MODE :: bool
  llm_manager_init :: "nat \<Rightarrow> exn option"
  completions_create :: "nat \<Rightarrow> api_outcome"
  console_input :: "nat \<Rightarrow> exn + string"
  console_output :: "nat \<Rightarrow> exn option"
  inits_done :: nat
  calls_done :: nat
  inputs_done :: nat
  prints_done :: nat

type_synonym 'a io = "world \<Rightarrow> (exn + 'a) \<times> world"

definition LLMManager :: "unit io" where
  "LLMManager w =
     ((case llm_manager_init w (inits_done w) of None \<Rightarrow> Inr () | Some e \<Rightarrow> Inl e),
      w\<lparr>inits_done := Suc (inits_done w)\<rparr>)"

text \<open>The body of the \<^verbatim>\<open>try\<close> block of \<^verbatim>\<open>LLMManager.call_gpt4o\<close>.\<close>

definition call_gpt4o_try :: "api_outcome \<Rightarrow> exn + string" where
  \<open>call_gpt4o_try outcome =
     (case outcome of
        Raises e \<Rightarrow> Inl e
      | Response [] \<Rightarrow> Inl (Exception ''list index out of range'')
      | Response (None # _) \<Rightarrow>
          Inl (Exception (''\'NoneType\' object has no attribute \'strip'' @ [CHR 0x27]))
      | Response (Some content # _) \<Rightarrow> Inr (strip content))\<close>

text \<open>The \<^verbatim>\<open>try\<close> block with its \<^verbatim>\<open>except Exception as e\<close> handler.\<close>

definition call_gpt4o_result :: "api_outcome \<Rightarrow> exn + string" where
  "call_gpt4o_result outcome =
     (case call_gpt4o_try outcome of
        Inr result \<Rightarrow> Inr result
      | Inl e \<Rightarrow> Inr (''Error calling GPT-4o: '' @ str e))"

definition call_gpt4o :: "string io" where
  "call_gpt4o w =
     (call_gpt4o_result (completions_create w (calls_done w)),
      w\<lparr>calls_done := Suc (calls_done w)\<rparr>)"

text \<open>
  A console event of \<^verbatim>\<open>process_request\<close>: one \<^verbatim>\<open>print\<close>, or several in a row with nothing
  between them that changes the state. It raises when one of them does. \<^verbatim>\<open>print_action\<close>
  prints nothing when \<^verbatim>\<open>TESTING_MODE\<close> is set.
\<close>

definition console_print :: "unit io" where
  "console_print w =
     ((case console_output w (prints_done w) of None \<Rightarrow> Inr () | Some e \<Rightarrow> Inl e),
      w\<lparr>prints_done := Suc (prints_done w)\<rparr>)"

definition print_action :: "unit io" where
  "print_action w = (if TESTING_MODE w then (Inr (), w) else console_print w)"

section \<open>The workflow state\<close>

datatype RouteType = CLARIFY | CODE | ANSWER

fun route_value :: "RouteType \<Rightarrow> string" where
  "route_value CLARIFY = ''clarify''"
| "route_value CODE = ''code''"
| "route_value ANSWER = ''answer''"

text \<open>A conversation entry \<^verbatim>\<open>{"role": r, "message": m}\<close> is the pair \<open>(r, m)\<close>.\<close>

type_synonym turn = "string \<times> string"

record AgentState =
  user_input :: string
  conversation_history :: "turn list"
  clarified :: bool
  clarification_questions :: "string list"
  clarification_responses :: "string list"
  route :: "RouteType option"
  refined_prompt :: string
  final_result :: string
  error_message :: string
  processing_steps :: "string list"

definition create_agent_state :: "string \<Rightarrow> AgentState" where
  "create_agent_state input =
     \<lparr>user_input = input, conversation_history = [], clarified = False,
      clarification_questions = [], clarification_responses = [], route = None,
      refined_prompt = [], final_result = [], error_message = [],
      processing_steps = []\<rparr>"

definition add_conversation :: "AgentState \<Rightarrow> string \<Rightarrow> string \<Rightarrow> AgentState" where
  "add_conversation state r m =
     state\<lparr>conversation_history := conversation_history state @ [(r, m)]\<rparr>"

definition add_step :: "AgentState \<Rightarrow> string \<Rightarrow> AgentState" where
  "add_step state step = state\<lparr>processing_steps := processing_steps state @ [step]\<rparr>"

section \<open>The nodes of the graph\<close>

text \<open>
  Each node takes the state and returns the updated state, or raises. The lists of the
  state are appended to in place, so what a node has appended before it raises stays in
  the lists that the caller holds: a node that raises returns \<open>Inl (e, state)\<close> with the
  state as it stands at the \<^verbatim>\<open>raise\<close>.

  The progress notifications that a node hands to the stream writer are left out: each is
  wrapped in \<^verbatim>\<open>try: ... except: pass\<close> and touches no field of the state. What a node prints
  on the console is left out as well: the console is taken to accept it.
\<close>

type_synonym step = "world \<Rightarrow> ((exn \<times> AgentState) + AgentState) \<times> world"

text \<open>
  The user's reply to a clarification question: \<^verbatim>\<open>input(...).strip()\<close>, or the fixed
  simulated reply when \<^verbatim>\<open>TESTING_MODE\<close> is set.
\<close>

definition ask_user :: "string io" where
  "ask_user w =
     (if \<not> TESTING_MODE w then
        ((case console_input w (inputs_done w) of
            Inl e \<Rightarrow> Inl e
          | Inr line \<Rightarrow> Inr (strip line)),
         w\<lparr>inputs_done := Suc (inputs_done w)\<rparr>)
      else (Inr ''I want to build a web application for managing inventory'', w))"

text \<open>The part of \<^verbatim>\<open>clarify_loop\<close> that runs once the user has given a non-empty reply.\<close>

definition clarify_follow_up :: "AgentState \<Rightarrow> string \<Rightarrow> step" where
  "clarify_follow_up state0 user_response w0 =
     (let state1 = state0\<lparr>clarification_responses :=
                            clarification_responses state0 @ [user_response]\<rparr>;
          state2 = add_conversation state1 ''user'' user_response;
          state3 = add_step state2 (''Received clarification response: '' @ user_response);
          state4 = state3\<lparr>user_input := user_input state3 @ '' - '' @ user_response\<rparr>
      in case call_gpt4o w0 of
           (Inl e, w1) \<Rightarrow> (Inl (e, state4), w1)
         | (Inr follow_up_response, w1) \<Rightarrow>
             if prefix ''CLARIFIED:'' follow_up_response then
               (Inr (add_step
                      (state4\<lparr>clarified := True,
                              refined_prompt := strip (drop 10 follow_up_response)\<rparr>)
                      ''Clarification completed after user response''), w1)
             else if length (clarification_questions state4) \<ge> 2 then
               (Inr (add_step
                      (state4\<lparr>clarified := True,
                              refined_prompt := user_input state4 @ '' - '' @ user_response\<rparr>)
                      ''Maximum clarification rounds reached - proceeding''), w1)
             else (Inr state4, w1))"

definition clarify_loop :: "AgentState \<Rightarrow> step" where
  "clarify_loop state0 w0 =
     (let state1 = add_step state0 ''Starting clarification process'' in
      case LLMManager w0 of
        (Inl e, w1) \<Rightarrow> (Inl (e, state1), w1)
      | (Inr llm, w1) \<Rightarrow>
         (case call_gpt4o w1 of
            (Inl e, w2) \<Rightarrow> (Inl (e, state1), w2)
          | (Inr response, w2) \<Rightarrow>
             let state2 = add_step state1
                            (''Clarification analysis: '' @ take 100 response @ ''...'')
             in if prefix ''CLARIFIED:'' response then
                  (Inr (add_step
                         (state2\<lparr>clarified := True,
                                 refined_prompt := strip (drop 10 response)\<rparr>)
                         ''Clarification completed''), w2)
                else if prefix ''QUESTION:'' response then
                  (let question = strip (drop 9 response);
                       state3 = state2\<lparr>clarification_questions :=
                                           clarification_questions state2 @ [question]\<rparr>;
                       state4 = add_conversation state3 ''assistant'' question;
                       state5 = add_step state4 (''Asked clarification question: '' @ question)
                   in case ask_user w2 of
                        (Inl e, w3) \<Rightarrow> (Inl (e, state5), w3)
                      | (Inr user_response, w3) \<Rightarrow>
                          if user_response \<noteq> [] then
                            clarify_follow_up state5 user_response w3
                          else
                            (Inr (add_step
                                   (state5\<lparr>clarified := True,
                                           refined_prompt := user_input state5\<rparr>)
                                   ''No clarification response - proceeding with original''),
                             w3))
                else
                  (Inr (add_step
                         (state2\<lparr>clarified := True, refined_prompt := user_input state2\<rparr>)
                         ''Clarification fallback - proceeding with original input''), w2)))"

text \<open>
  \<^verbatim>\<open>state['route'].value\<close>: an \<^verbatim>\<open>AttributeError\<close> when the route is \<^verbatim>\<open>None\<close>.
\<close>

definition route_value_of :: "AgentState \<Rightarrow> exn + string" where
  \<open>route_value_of state =
     (case route state of
        Some r \<Rightarrow> Inr (route_value r)
      | None \<Rightarrow> Inl (Exception (''\'NoneType\' object has no attribute \'value'' @ [CHR 0x27])))\<close>

definition route_prompt :: "AgentState \<Rightarrow> step" where
  "route_prompt state0 w0 =
     (let state1 = add_step state0 ''Starting prompt routing analysis'' in
      case LLMManager w0 of
        (Inl e, w1) \<Rightarrow> (Inl (e, state1), w1)
      | (Inr llm, w1) \<Rightarrow>
         (case call_gpt4o w1 of
            (Inl e, w2) \<Rightarrow> (Inl (e, state1), w2)
          | (Inr text, w2) \<Rightarrow>
             let response = upper (strip text);
                 state2 = add_step state1 (''Routing analysis result: '' @ response);
                 state3 =
                   (if sublist ''CLARIFY'' response then state2\<lparr>route := Some CLARIFY\<rparr>
                    else if sublist ''CODE'' response then state2\<lparr>route := Some CODE\<rparr>
                    else if sublist ''ANSWER'' response then state2\<lparr>route := Some ANSWER\<rparr>
                    else add_step (state2\<lparr>route := Some CLARIFY\<rparr>)
                           ''Routing fallback - defaulting to CLARIFY'')
             in case route_value_of state3 of
                  Inl e \<Rightarrow> (Inl (e, state3), w2)
                | Inr v \<Rightarrow> (Inr (add_step state3 (''Route decision: '' @ v)), w2)))"

definition refine_prompt :: "AgentState \<Rightarrow> step" where
  "refine_prompt state0 w0 =
     (let state1 = add_step state0 ''Starting prompt refinement'' in
      case LLMManager w0 of
        (Inl e, w1) \<Rightarrow> (Inl (e, state1), w1)
      | (Inr llm, w1) \<Rightarrow>
         (case call_gpt4o w1 of
            (Inl e, w2) \<Rightarrow> (Inl (e, state1), w2)
          | (Inr refined, w2) \<Rightarrow>
             (Inr (add_step (state1\<lparr>refined_prompt := strip refined\<rparr>)
                     ''Prompt refinement completed''), w2)))"

text \<open>The text of the placeholder result, before and after the refined prompt.\<close>

definition placeholder_head :: string where
  \<open>placeholder_head =
     ''\<newline>'' @
     ''    PLACEHOLDER CLAUDE CODE EXECUTION\<newline>'' @
     ''    \<newline>'' @
     ''    Refined Prompt:\<newline>'' @
     ''    ''\<close>

definition placeholder_tail :: string where
  \<open>placeholder_tail =
     ''\<newline>'' @
     ''    \<newline>'' @
     ''    This would normally execute the Claude Code CLI with the above prompt\<newline>'' @
     ''    and return the generated code, file changes, or execution results.\<newline>'' @
     ''    \<newline>'' @
     ''    Expected implementation:\<newline>'' @
     ''    ```python\<newline>'' @
     ''    import tempfile\<newline>'' @
     ''    import subprocess\<newline>'' @
     ''    import json\<newline>'' @
     ''    \<newline>'' @
     ''    # Write prompt to temporary file\<newline>'' @
     ''    with tempfile.NamedTemporaryFile(mode=\'w\', suffix=\'.txt\', delete=False) as f:\<newline>'' @
     ''        f.write(state.refined_prompt)\<newline>'' @
     ''        prompt_file = f.name\<newline>'' @
     ''    \<newline>'' @
     ''    try:\<newline>'' @
     ''        # Execute Claude Code CLI\<newline>'' @
     ''        result = subprocess.run([\<newline>'' @
     ''            "claude", "code", \<newline>'' @
     ''            "--prompt-file", prompt_file,\<newline>'' @
     ''            "--output-format", "json"\<newline>'' @
     ''        ], capture_output=True, text=True, timeout=300)\<newline>'' @
     ''        \<newline>'' @
     ''        if result.returncode == 0:\<newline>'' @
     ''            # Parse JSON result\<newline>'' @
     ''            claude_output = json.loads(result.stdout)\<newline>'' @
     ''            state.final_result = claude_output.get("result", "")\<newline>'' @
     ''        else:\<newline>'' @
     ''            state.error_message = f"Claude Code error: result.stderr"\<newline>'' @
     ''            \<newline>'' @
     ''    except subprocess.TimeoutExpired:\<newline>'' @
     ''        state.error_message = "Claude Code execution timed out"\<newline>'' @
     ''    except json.JSONDecodeError:\<newline>'' @
     ''        state.error_message = "Failed to parse Claude Code output"\<newline>'' @
     ''    except Exception as e:\<newline>'' @
     ''        state.error_message = f"Unexpected error: str(e)"\<newline>'' @
     ''    finally:\<newline>'' @
     ''        # Cleanup\<newline>'' @
     ''        os.unlink(prompt_file)\<newline>'' @
     ''    ```\<newline>'' @
     ''    ''\<close>

definition run_claude_code :: "AgentState \<Rightarrow> AgentState" where
  "run_claude_code state0 =
     (let state1 = add_step state0 ''Starting Claude Code execution (PLACEHOLDER)'';
          placeholder_result = placeholder_head @ refined_prompt state1 @ placeholder_tail
      in add_step (state1\<lparr>final_result := placeholder_result\<rparr>)
           ''Claude Code execution completed (placeholder)'')"

definition answer_with_llm :: "AgentState \<Rightarrow> step" where
  "answer_with_llm state0 w0 =
     (let state1 = add_step state0 ''Starting direct LLM answer generation'' in
      case LLMManager w0 of
        (Inl e, w1) \<Rightarrow> (Inl (e, state1), w1)
      | (Inr llm, w1) \<Rightarrow>
         (case call_gpt4o w1 of
            (Inl e, w2) \<Rightarrow> (Inl (e, state1), w2)
          | (Inr answer, w2) \<Rightarrow>
             (Inr (add_step (state1\<lparr>final_result := strip answer\<rparr>)
                     ''Direct answer generation completed''), w2)))"

section \<open>The graph\<close>

datatype node =
  Node_route_prompt | Node_clarify_loop | Node_refine_prompt | Node_run_claude_code
| Node_answer_with_llm

definition run_node :: "node \<Rightarrow> AgentState \<Rightarrow> step" where
  "run_node n state w =
     (case n of
        Node_route_prompt \<Rightarrow> route_prompt state w
      | Node_clarify_loop \<Rightarrow> clarify_loop state w
      | Node_refine_prompt \<Rightarrow> refine_prompt state w
      | Node_run_claude_code \<Rightarrow> (Inr (run_claude_code state), w)
      | Node_answer_with_llm \<Rightarrow> answer_with_llm state w)"

text \<open>
  The edges that \<^verbatim>\<open>build_agent_graph\<close> adds: the node that runs after \<open>n\<close> has returned
  \<open>state\<close>, \<open>None\<close> for \<^verbatim>\<open>END\<close>.
\<close>

definition next_node :: "node \<Rightarrow> AgentState \<Rightarrow> node option" where
  "next_node n state =
     (case n of
        Node_route_prompt \<Rightarrow>
          (case route state of
             Some CLARIFY \<Rightarrow> Some Node_clarify_loop
           | Some CODE \<Rightarrow> Some Node_refine_prompt
           | Some ANSWER \<Rightarrow> Some Node_answer_with_llm
           | None \<Rightarrow> Some Node_clarify_loop)
      | Node_clarify_loop \<Rightarrow>
          (if clarified state then Some Node_refine_prompt else Some Node_clarify_loop)
      | Node_refine_prompt \<Rightarrow> Some Node_run_claude_code
      | Node_run_claude_code \<Rightarrow> None
      | Node_answer_with_llm \<Rightarrow> None)"

text \<open>
  When the graph is streamed, the loop of \<^verbatim>\<open>process_request\<close> prints the chunks of a node
  once the node has returned (its notifications and its update, at least one line): a
  console event. When this raises, the run is given up with the state as the node left
  it. \<^verbatim>\<open>graph.invoke\<close> prints no chunk.
\<close>

definition print_chunks :: "bool \<Rightarrow> unit io" where
  "print_chunks streamed w = (if streamed then console_print w else (Inr (), w))"

text \<open>
  A clarification round that leaves the request unresolved has asked a question, and it
  is the first or the second of the list: this bounds the loop of the graph.
\<close>

lemma clarify_follow_up_unresolved:
  assumes "clarify_follow_up state r w = (Inr state', w')" and "\<not> clarified state'"
  shows "clarification_questions state' = clarification_questions state \<and>
         length (clarification_questions state) < 2"
  using assms
  by (auto simp: clarify_follow_up_def add_step_def add_conversation_def Let_def
        split: prod.splits sum.splits if_splits)

lemma clarify_loop_unresolved:
  assumes "clarify_loop state w = (Inr state', w')" and "\<not> clarified state'"
  shows "length (clarification_questions state') = Suc (length (clarification_questions state)) \<and>
         length (clarification_questions state') < 2"
  using assms
  by (auto simp: clarify_loop_def add_step_def add_conversation_def Let_def
        split: prod.splits sum.splits if_splits dest!: clarify_follow_up_unresolved)

text \<open>A run of the graph from node \<open>n\<close>, streamed or not.\<close>

function graph_exec :: "bool \<Rightarrow> node \<Rightarrow> AgentState \<Rightarrow> step" where
  "graph_exec streamed n state w =
     (case run_node n state w of
        (Inl failure, w') \<Rightarrow> (Inl failure, w')
      | (Inr state', w') \<Rightarrow>
          (case print_chunks streamed w' of
             (Inl e, w'') \<Rightarrow> (Inl (e, state'), w'')
           | (Inr printed, w'') \<Rightarrow>
               (case next_node n state' of
                  None \<Rightarrow> (Inr state', w'')
                | Some n' \<Rightarrow> graph_exec streamed n' state' w'')))"
  by pat_completeness auto
termination
proof (relation "measure (\<lambda>(streamed, n, state, w).
         case n of
           Node_route_prompt \<Rightarrow> 6
         | Node_clarify_loop \<Rightarrow> 3 + (2 - length (clarification_questions state))
         | Node_refine_prompt \<Rightarrow> 2
         | Node_run_claude_code \<Rightarrow> 1
         | Node_answer_with_llm \<Rightarrow> 1)", goal_cases)
  case 1
  show ?case by simp
next
  case (2 streamed n state w x y state' xa ya printed n')
  then show ?case
    by (cases n)
       (auto simp: run_node_def next_node_def split: if_splits option.splits RouteType.splits
          dest: clarify_loop_unresolved [OF sym])
qed

declare graph_exec.simps [simp del]

section \<open>Processing a request\<close>

text \<open>A Python dictionary with string keys is a map from keys to values.\<close>

datatype pyval = Bool bool | Str string | Strs "string list" | Turns "turn list"

type_synonym pydict = "string \<rightharpoonup> pyval"

text \<open>
  The initial state as \<^verbatim>\<open>graph.invoke\<close> finds it after a streamed run that raised: the
  fields of \<^verbatim>\<open>initial_state\<close> are as set at the start, and its four lists hold what the
  nodes of the failed run have appended to them.
\<close>

definition after_failed_stream :: "AgentState \<Rightarrow> AgentState \<Rightarrow> AgentState" where
  "after_failed_stream initial_state failed =
     initial_state
       \<lparr>conversation_history := conversation_history failed,
        clarification_questions := clarification_questions failed,
        clarification_responses := clarification_responses failed,
        processing_steps := processing_steps failed\<rparr>"

text \<open>The dictionary of lines 1103 to 1112.\<close>

definition success_result :: "AgentState \<Rightarrow> pydict" where
  "success_result final_state =
     [''success'' \<mapsto> Bool True,
      ''final_result'' \<mapsto> Str (final_result final_state),
      ''route_taken'' \<mapsto>
         Str (case route final_state of Some r \<Rightarrow> route_value r | None \<Rightarrow> ''unknown''),
      ''clarified'' \<mapsto> Bool (clarified final_state),
      ''refined_prompt'' \<mapsto> Str (refined_prompt final_state),
      ''processing_steps'' \<mapsto> Strs (processing_steps final_state),
      ''conversation_history'' \<mapsto> Turns (conversation_history final_state),
      ''error_message'' \<mapsto> Str (error_message final_state)]"

text \<open>The dictionary of lines 1120 to 1126.\<close>

definition error_result :: "exn \<Rightarrow> pydict" where
  "error_result e =
     [''success'' \<mapsto> Bool False,
      ''error'' \<mapsto> Str (str e),
      ''final_result'' \<mapsto> Str [],
      ''route_taken'' \<mapsto> Str ''error'',
      ''processing_steps'' \<mapsto> Strs [''Error occurred during processing'']]"

text \<open>
  The two runs of the graph inside the \<^verbatim>\<open>try\<close> block: the graph is streamed from its entry
  point and, when that raises, the inner handler prints two actions and runs the graph
  again by \<^verbatim>\<open>graph.invoke\<close> on \<^verbatim>\<open>initial_state\<close>. Every node returns the whole state, so
  the last update streamed is the final state.
\<close>

definition run_graph :: "AgentState \<Rightarrow> (AgentState) io" where
  "run_graph initial_state w0 =
     (case graph_exec True Node_route_prompt initial_state w0 of
        (Inr final_state, w1) \<Rightarrow> (Inr final_state, w1)
      | (Inl (streaming_error, failed), w1) \<Rightarrow>
          (case print_action w1 of
             (Inl e, w2) \<Rightarrow> (Inl e, w2)
           | (Inr printed, w2) \<Rightarrow>
               (case graph_exec False Node_route_prompt
                        (after_failed_stream initial_state failed) w2 of
                  (Inl (e, failed'), w3) \<Rightarrow> (Inl e, w3)
                | (Inr final_state, w3) \<Rightarrow> (Inr final_state, w3))))"

text \<open>
  The body of the outer \<^verbatim>\<open>try\<close> block of \<^verbatim>\<open>LangGraphAgentSystem.process_request\<close>, on the
  agent's conversation memory: the dictionary returned or the exception raised, with the
  memory afterwards. The memory is assigned after the prints of lines 1095 to 1097 and
  before the print of line 1114.
\<close>

definition process_request_try ::
  "turn list \<Rightarrow> AgentState \<Rightarrow> world \<Rightarrow> (exn + pydict) \<times> turn list \<times> world" where
  "process_request_try memory initial_state w0 =
     (case console_print w0 of
        (Inl e, w1) \<Rightarrow> (Inl e, memory, w1)
      | (Inr printed, w1) \<Rightarrow>
          (case run_graph initial_state w1 of
             (Inl e, w2) \<Rightarrow> (Inl e, memory, w2)
           | (Inr final_state, w2) \<Rightarrow>
               (case console_print w2 of
                  (Inl e, w3) \<Rightarrow> (Inl e, memory, w3)
                | (Inr printed, w3) \<Rightarrow>
                    (case console_print w3 of
                       (Inl e, w4) \<Rightarrow> (Inl e, conversation_history final_state, w4)
                     | (Inr printed, w4) \<Rightarrow>
                         (Inr (success_result final_state),
                          conversation_history final_state, w4)))))"

text \<open>
  \<^verbatim>\<open>process_request\<close>: the prints of lines 1018 and 1019, then the \<^verbatim>\<open>try\<close> block with its
  \<^verbatim>\<open>except Exception as e\<close> handler, which prints (lines 1118 and 1119) before it returns
  the error dictionary. The value is the returned dictionary, or the exception that
  reaches the caller, with the agent's memory afterwards.
\<close>

definition process_request ::
  "turn list \<Rightarrow> string \<Rightarrow> world \<Rightarrow> (exn + pydict) \<times> turn list \<times> world" where
  "process_request memory input w0 =
     (case console_print w0 of
        (Inl e, w1) \<Rightarrow> (Inl e, memory, w1)
      | (Inr printed, w1) \<Rightarrow>
          (let state0 = (create_agent_state input)\<lparr>conversation_history := memory\<rparr>;
               state1 = add_conversation state0 ''user'' input;
               initial_state = add_step state1 ''Request received and processing started''
           in case process_request_try memory initial_state w1 of
                (Inr result, memory', w2) \<Rightarrow> (Inr result, memory', w2)
              | (Inl e, memory', w2) \<Rightarrow>
                  (case console_print w2 of
                     (Inl e', w3) \<Rightarrow> (Inl e', memory', w3)
                   | (Inr printed, w3) \<Rightarrow> (Inr (error_result e), memory', w3))))"

text \<open>
  Worlds for concrete runs: the \<open>k\<close>-th element of a script, and a default beyond its end.
  The console accepts every line.
\<close>

definition script :: "'a list \<Rightarrow> 'a \<Rightarrow> nat \<Rightarrow> 'a" where
  "script xs d k = (if k < length xs then xs ! k else d)"

definition replies :: "string list \<Rightarrow> nat \<Rightarrow> api_outcome" where
  "replies xs = script (map (\<lambda>x. Response [Some x]) xs) (Raises (Exception ''Connection error.''))"

definition scripted_world :: "(nat \<Rightarrow> api_outcome) \<Rightarrow> string list \<Rightarrow> world" where
  "scripted_world api lines =
     \<lparr>TESTING_MODE = False, llm_manager_init = (\<lambda>k. None), completions_create = api,
      console_input = script (map Inr lines) (Inl (Exception ''EOF when reading a line'')),
      console_output = (\<lambda>k. None),
      inits_done = 0, calls_done = 0, inputs_done = 0, prints_done = 0\<rparr>"

text \<open>The initial state that \<^verbatim>\<open>process_request\<close> builds from the agent's memory and the input.\<close>

definition request_state :: "turn list \<Rightarrow> string \<Rightarrow> AgentState" where
  "request_state memory input =
     add_step
       (add_conversation ((create_agent_state input)\<lparr>conversation_history := memory\<rparr>)
          ''user'' input)
       ''Request received and processing started''"

text \<open>
  The two runs of the graph in \<^verbatim>\<open>process_request\<close>, for the statements below: the streamed
  run, which starts after the console events of lines 1018 to 1019 and 1029 to 1030, and
  the run by \<^verbatim>\<open>graph.invoke\<close> after a streamed run that has raised with the state \<open>failed\<close>.
\<close>

definition first_run :: "turn list \<Rightarrow> string \<Rightarrow> step" where
  "first_run memory input w =
     graph_exec True Node_route_prompt (request_state memory input)
       (snd (console_print (snd (console_print w))))"

definition second_run :: "turn list \<Rightarrow> string \<Rightarrow> AgentState \<Rightarrow> step" where
  "second_run memory input failed w =
     graph_exec False Node_route_prompt
       (after_failed_stream (request_state memory input) failed)
       (snd (print_action (snd (first_run memory input w))))"

text \<open>
  \<^verbatim>\<open>result.get(key)\<close> on what \<^verbatim>\<open>process_request\<close> returns: \<open>None\<close> when the dictionary has
  no such key.
\<close>

definition returned :: "(exn + pydict) \<times> 'a \<Rightarrow> string \<Rightarrow> pyval option" where
  "returned r key = (case fst r of Inl e \<Rightarrow> None | Inr result \<Rightarrow> result key)"

text \<open>The exception of a run that raised, without the state it left.\<close>

definition raised :: "((exn \<times> AgentState) + AgentState) \<times> world \<Rightarrow> exn option" where
  "raised r = (case fst r of Inl (e, failed) \<Rightarrow> Some e | Inr state \<Rightarrow> None)"

text \<open>The exception that reaches the caller of \<^verbatim>\<open>process_request\<close>, if one does.\<close>

definition propagated :: "(exn + pydict) \<times> 'a \<Rightarrow> exn option" where
  "propagated r = (case fst r of Inl e \<Rightarrow> Some e | Inr result \<Rightarrow> None)"

text \<open>
  No step changes what the environment will answer, and only a completion call moves the
  count of calls.
\<close>

definition same_oracles :: "world \<Rightarrow> world \<Rightarrow> bool" where
  "same_oracles w w' \<longleftrightarrow>
     TESTING_MODE w' = TESTING_MODE w \<and> llm_manager_init w' = llm_manager_init w \<and>
     completions_create w' = completions_create w \<and> console_input w' = console_input w \<and>
     console_output w' = console_output w \<and> calls_done w \<le> calls_done w'"

section \<open>Classification as the specification words it\<close>



section \<open>Example environments\<close>

text \<open>The service resolves the request with its first reply.\<close>

definition world_resolved_at_once :: world where
  "world_resolved_at_once = scripted_world (replies [''CLARIFIED: inventory web app'']) []"

text \<open>The service asks one question and resolves the request after the user's answer.\<close>

definition world_resolved_after_answer :: world where
  "world_resolved_after_answer =
     scripted_world
       (replies [''QUESTION: what kind of project?'', ''CLARIFIED: inventory web app''])
       [''an app'']"

text \<open>Every request to the service fails.\<close>

definition world_offline :: world where
  "world_offline = scripted_world (replies []) []"

text \<open>
  The second clarification round of a request: the state that the first round leaves
  when its follow-up reply is another question, and an environment in which the second
  round's follow-up reply is a question again.
\<close>

definition second_round_state :: AgentState where
  "second_round_state =
     \<lparr>user_input = ''I want to build something - an app'',
      conversation_history =
        [(''user'', ''I want to build something''),
         (''assistant'', ''what kind of project?''), (''user'', ''an app'')],
      clarified = False,
      clarification_questions = [''what kind of project?''],
      clarification_responses = [''an app''],
      route = Some CLARIFY, refined_prompt = [], final_result = [], error_message = [],
      processing_steps = []\<rparr>"

definition world_second_round :: world where
  "world_second_round =
     scripted_world
       (replies [''QUESTION: for which platform?'', ''QUESTION: in which language?''])
       [''web'']"

text \<open>The request is routed to a direct answer, and the answer is the empty string.\<close>

definition world_empty_answer :: world where
  "world_empty_answer = scripted_world (replies [''ANSWER'', '''']) []"

text \<open>The request is routed to code generation.\<close>

definition world_code :: world where
  "world_code = scripted_world (replies [''CODE'', ''Build an inventory web app.'']) []"

text \<open>
  Standard input is closed, so \<^verbatim>\<open>input()\<close> raises \<^verbatim>\<open>EOFError\<close>. The first classification is
  CLARIFY and a question follows; the classification of the second run is ANSWER.
\<close>

definition world_stdin_closed :: world where
  "world_stdin_closed =
     scripted_world
       (replies [''CLARIFY'', ''QUESTION: what kind of project?'', ''ANSWER'',
                 ''Tell me more about the project.''])
       []"

text \<open>Standard input is closed, and both runs of the graph reach a clarification question.\<close>

definition world_no_console :: world where
  "world_no_console =
     scripted_world
       (replies [''CLARIFY'', ''QUESTION: what kind of project?'', ''CLARIFY'',
                 ''QUESTION: what kind of project?''])
       []"

text \<open>The request is routed to a direct answer, and the service answers.\<close>

definition world_answer :: world where
  "world_answer =
     scripted_world (replies [''ANSWER'', '' REST is an architectural style. '']) []"

text \<open>The console is broken: every \<^verbatim>\<open>print\<close> raises.\<close>

definition world_console_broken :: world where
  "world_console_broken =
     (scripted_world (replies [''ANSWER'', ''REST is an architectural style.'']) [])
       \<lparr>console_output := (\<lambda>k. Some (Exception ''[Errno 32] Broken pipe''))\<rparr>"

text \<open>
  Standard input gives one line, fails once and then gives another line. The streamed
  run asks two questions and raises at the second \<^verbatim>\<open>input()\<close>; the run that follows asks
  a third.
\<close>

definition world_console_recovers :: world where
  "world_console_recovers =
     (scripted_world
        (replies [''CLARIFY'', ''QUESTION: what kind of project?'', ''QUESTION: more?'',
                  ''QUESTION: for which platform?'', ''CLARIFY'',
                  ''QUESTION: in which language?'', ''QUESTION: more?'', ''Task: build it.''])
        [])
       \<lparr>console_input :=
          script [Inr ''an app'', Inl (Exception ''EOF when reading a line''), Inr ''web'']
            (Inl (Exception ''EOF when reading a line''))\<rparr>"

section \<open>The session manager\<close>

datatype py_error = KeyError

text \<open>
  \<^verbatim>\<open>d.pop(key)\<close> and \<^verbatim>\<open>d.pop(key, None)\<close>: the value removed and the dictionary afterwards.
  Without a default a missing key raises \<^verbatim>\<open>KeyError\<close>; with the default \<^verbatim>\<open>None\<close> it is
  returned and the dictionary is left as it is.
\<close>

definition dict_pop :: "('k \<rightharpoonup> 'v) \<Rightarrow> 'k \<Rightarrow> bool \<Rightarrow> py_error + ('v option \<times> ('k \<rightharpoonup> 'v))" where
  "dict_pop d key with_default =
     (case d key of
        Some v \<Rightarrow> Inr (Some v, d(key := None))
      | None \<Rightarrow> if with_default then Inr (None, d) else Inl KeyError)"

text \<open>
  A session holds its agent (here the agent's conversation memory), its creation time and
  its message count. A connection is named by a number.
\<close>

record session =
  agent :: "turn list"
  created_at :: nat
  message_count :: nat

type_synonym websocket = nat

record SessionManager =
  sessions :: "string \<rightharpoonup> session"
  active_connections :: "string \<rightharpoonup> websocket"

definition get_session :: "SessionManager \<Rightarrow> string \<Rightarrow> session option" where
  "get_session self session_id = sessions self session_id"

definition get_connection :: "SessionManager \<Rightarrow> string \<Rightarrow> websocket option" where
  "get_connection self session_id = active_connections self session_id"

definition remove_session :: "SessionManager \<Rightarrow> string \<Rightarrow> py_error + SessionManager" where
  "remove_session self session_id =
     (case dict_pop (sessions self) session_id True of
        Inl e \<Rightarrow> Inl e
      | Inr (removed, sessions') \<Rightarrow>
          (case dict_pop (active_connections self) session_id True of
             Inl e \<Rightarrow> Inl e
           | Inr (closed, connections') \<Rightarrow>
               Inr (self\<lparr>sessions := sessions', active_connections := connections'\<rparr>)))"

text \<open>A manager with one session.\<close>

definition one_session :: SessionManager where
  "one_session =
     \<lparr>sessions = [''4f1c'' \<mapsto> \<lparr>agent = [], created_at = 0, message_count = 3\<rparr>],
      active_connections = [''4f1c'' \<mapsto> 1]\<rparr>"

section \<open>Facts about text\<close>













section \<open>Routing\<close>


lemma route_prompt_result:
  assumes "fst (LLMManager w) = Inr ()"
    and "fst (call_gpt4o (snd (LLMManager w))) = Inr reply"
  shows "fst (route_prompt state w) =
           (let response = upper (strip reply);
                r = (if sublist ''CLARIFY'' response then CLARIFY
                     else if sublist ''CODE'' response then CODE
                     else if sublist ''ANSWER'' response then ANSWER
                     else CLARIFY)
            in Inr (state\<lparr>route := Some r,
                          processing_steps := processing_steps state @
                            [''Starting prompt routing analysis'',
                             ''Routing analysis result: '' @ response] @
                            (if \<not> sublist ''CLARIFY'' response \<and> \<not> sublist ''CODE'' response \<and>
                                \<not> sublist ''ANSWER'' response
                             then [''Routing fallback - defaulting to CLARIFY''] else []) @
                            [''Route decision: '' @ route_value r]\<rparr>))"
proof -
  obtain w1 where 1: "LLMManager w = (Inr (), w1)"
    using assms(1) by (cases "LLMManager w") auto
  obtain w2 where 2: "call_gpt4o w1 = (Inr reply, w2)"
    using assms(2) 1 by (cases "call_gpt4o w1") auto
  show ?thesis
    by (simp add: route_prompt_def 1 2 Let_def route_value_of_def add_step_def)
qed




text \<open>
  C8: routing is a function of the reply text. Two runs of \<^verbatim>\<open>route_prompt\<close>, from any two
  states and in any two environments, that receive the same text from the completion
  service set the same route.
\<close>

theorem routing_deterministic:
  assumes "fst (LLMManager w1) = Inr ()" and "fst (LLMManager w2) = Inr ()"
    and "fst (call_gpt4o (snd (LLMManager w1))) = Inr reply"
    and "fst (call_gpt4o (snd (LLMManager w2))) = Inr reply"
  shows "\<exists>state1' state2'.
           fst (route_prompt state1 w1) = Inr state1' \<and>
           fst (route_prompt state2 w2) = Inr state2' \<and>
           route state1' = route state2'"
  using route_prompt_result [OF assms(1,3), of state1]
    route_prompt_result [OF assms(2,4), of state2]
  by (simp add: Let_def)

theorem routing_deterministic_witness:
  "fst (LLMManager (scripted_world (replies [''code'']) [])) = Inr () \<and>
   fst (LLMManager (scripted_world (replies [''code'', ''ANSWER'']) [''yes''])) = Inr () \<and>
   fst (call_gpt4o (snd (LLMManager (scripted_world (replies [''code'']) [])))) =
     Inr ''code'' \<and>
   fst (call_gpt4o (snd (LLMManager (scripted_world (replies [''code'', ''ANSWER'']) [''yes''])))) =
     Inr ''code'' \<and>
   (\<exists>state1' state2'.
      fst (route_prompt (create_agent_state ''Fix this bug'')
             (scripted_world (replies [''code'']) [])) = Inr state1' \<and>
      fst (route_prompt (create_agent_state ''Add a login page'')
             (scripted_world (replies [''code'', ''ANSWER'']) [''yes''])) = Inr state2' \<and>
      route state1' = route state2')"
proof -
  let ?w1 = "scripted_world (replies [''code'']) []"
  let ?w2 = "scripted_world (replies [''code'', ''ANSWER'']) [''yes'']"
  have 1: "fst (LLMManager ?w1) = Inr ()" and 2: "fst (LLMManager ?w2) = Inr ()"
    by (simp_all add: LLMManager_def scripted_world_def)
  have 3: "fst (call_gpt4o (snd (LLMManager ?w1))) = Inr ''code''"
    by (simp add: LLMManager_def scripted_world_def call_gpt4o_def call_gpt4o_result_def
          call_gpt4o_try_def replies_def script_def strip_def isspace_def)
  have 4: "fst (call_gpt4o (snd (LLMManager ?w2))) = Inr ''code''"
    by (simp add: LLMManager_def scripted_world_def call_gpt4o_def call_gpt4o_result_def
          call_gpt4o_try_def replies_def script_def strip_def isspace_def)
  show ?thesis
    using routing_deterministic [OF 1 2 3 4,
        of "create_agent_state ''Fix this bug''" "create_agent_state ''Add a login page''"]
      1 2 3 4
    by blast
qed

section \<open>The clarification loop\<close>

lemma clarify_loop_first_reply:
  assumes "fst (LLMManager w) = Inr ()"
    and "fst (call_gpt4o (snd (LLMManager w))) = Inr response"
  shows "clarify_loop state w =
     (let w2 = snd (call_gpt4o (snd (LLMManager w)));
          state2 = add_step (add_step state ''Starting clarification process'')
                     (''Clarification analysis: '' @ take 100 response @ ''...'')
      in if prefix ''CLARIFIED:'' response then
           (Inr (add_step
                  (state2\<lparr>clarified := True, refined_prompt := strip (drop 10 response)\<rparr>)
                  ''Clarification completed''), w2)
         else if prefix ''QUESTION:'' response then
           (let question = strip (drop 9 response);
                state5 = add_step
                           (add_conversation
                              (state2\<lparr>clarification_questions :=
                                         clarification_questions state2 @ [question]\<rparr>)
                              ''assistant'' question)
                           (''Asked clarification question: '' @ question)
            in case ask_user w2 of
                 (Inl e, w3) \<Rightarrow> (Inl (e, state5), w3)
               | (Inr user_response, w3) \<Rightarrow>
                   if user_response \<noteq> [] then clarify_follow_up state5 user_response w3
                   else
                     (Inr (add_step
                            (state5\<lparr>clarified := True, refined_prompt := user_input state5\<rparr>)
                            ''No clarification response - proceeding with original''), w3))
         else
           (Inr (add_step
                  (state2\<lparr>clarified := True, refined_prompt := user_input state2\<rparr>)
                  ''Clarification fallback - proceeding with original input''), w2))"
proof -
  obtain w1 where 1: "LLMManager w = (Inr (), w1)"
    using assms(1) by (cases "LLMManager w") auto
  obtain w2 where 2: "call_gpt4o w1 = (Inr response, w2)"
    using assms(2) 1 by (cases "call_gpt4o w1") auto
  show ?thesis
    by (simp add: clarify_loop_def 1 2 Let_def)
qed

lemma QUESTION_not_CLARIFIED: "prefix ''QUESTION:'' response \<Longrightarrow> \<not> prefix ''CLARIFIED:'' response"
  by (auto simp: prefix_def)

text \<open>
  C5: a reply that begins with \<^verbatim>\<open>CLARIFIED:\<close> ends the clarification loop, whether it is
  the first reply of \<^verbatim>\<open>clarify_loop\<close> or the follow-up reply after the user's answer:
  \<^verbatim>\<open>clarified\<close> is set, \<^verbatim>\<open>refined_prompt\<close> is the rest of the reply after the marker
  with the white space around it stripped, and the graph goes on to \<^verbatim>\<open>refine_prompt\<close>.
\<close>

theorem clarified_marker_ends_loop:
  assumes "fst (LLMManager w) = Inr ()"
    and "fst (call_gpt4o (snd (LLMManager w))) = Inr response"
  shows "(prefix ''CLARIFIED:'' response \<longrightarrow>
            (\<exists>state'. fst (clarify_loop state w) = Inr state' \<and> clarified state' \<and>
               refined_prompt state' = strip (drop 10 response) \<and>
               next_node Node_clarify_loop state' = Some Node_refine_prompt)) \<and>
         (\<forall>user_response follow_up.
            prefix ''QUESTION:'' response \<and>
            fst (ask_user (snd (call_gpt4o (snd (LLMManager w))))) = Inr user_response \<and>
            user_response \<noteq> [] \<and>
            fst (call_gpt4o (snd (ask_user (snd (call_gpt4o (snd (LLMManager w))))))) =
              Inr follow_up \<and>
            prefix ''CLARIFIED:'' follow_up \<longrightarrow>
            (\<exists>state'. fst (clarify_loop state w) = Inr state' \<and> clarified state' \<and>
               refined_prompt state' = strip (drop 10 follow_up) \<and>
               next_node Node_clarify_loop state' = Some Node_refine_prompt))"
proof (intro conjI impI allI)
  assume "prefix ''CLARIFIED:'' response"
  then show "\<exists>state'. fst (clarify_loop state w) = Inr state' \<and> clarified state' \<and>
               refined_prompt state' = strip (drop 10 response) \<and>
               next_node Node_clarify_loop state' = Some Node_refine_prompt"
    by (simp add: clarify_loop_first_reply [OF assms] Let_def add_step_def next_node_def)
next
  fix user_response follow_up
  let ?w2 = "snd (call_gpt4o (snd (LLMManager w)))"
  assume a: "prefix ''QUESTION:'' response \<and>
            fst (ask_user ?w2) = Inr user_response \<and>
            user_response \<noteq> [] \<and>
            fst (call_gpt4o (snd (ask_user ?w2))) = Inr follow_up \<and>
            prefix ''CLARIFIED:'' follow_up"
  obtain w3 where 3: "ask_user ?w2 = (Inr user_response, w3)"
    using a by (cases "ask_user ?w2") auto
  obtain w4 where 4: "call_gpt4o w3 = (Inr follow_up, w4)"
    using a 3 by (cases "call_gpt4o w3") auto
  from a have "\<not> prefix ''CLARIFIED:'' response"
    using QUESTION_not_CLARIFIED by blast
  with a show "\<exists>state'. fst (clarify_loop state w) = Inr state' \<and> clarified state' \<and>
               refined_prompt state' = strip (drop 10 follow_up) \<and>
               next_node Node_clarify_loop state' = Some Node_refine_prompt"
    by (simp add: clarify_loop_first_reply [OF assms] Let_def 3 4 clarify_follow_up_def
          add_step_def add_conversation_def next_node_def)
qed

theorem clarified_marker_ends_loop_witness:
  "(fst (call_gpt4o (snd (LLMManager world_resolved_at_once))) =
      Inr ''CLARIFIED: inventory web app'' \<and>
    prefix ''CLARIFIED:'' ''CLARIFIED: inventory web app'' \<and>
    (\<exists>state'. fst (clarify_loop (create_agent_state ''I want to build something'')
                     world_resolved_at_once) = Inr state' \<and>
       clarified state' \<and> refined_prompt state' = ''inventory web app'' \<and>
       next_node Node_clarify_loop state' = Some Node_refine_prompt)) \<and>
   (fst (call_gpt4o (snd (LLMManager world_resolved_after_answer))) =
      Inr ''QUESTION: what kind of project?'' \<and>
    prefix ''QUESTION:'' ''QUESTION: what kind of project?'' \<and>
    fst (ask_user (snd (call_gpt4o (snd (LLMManager world_resolved_after_answer))))) =
      Inr ''an app'' \<and>
    fst (call_gpt4o (snd (ask_user (snd (call_gpt4o (snd (LLMManager
           world_resolved_after_answer))))))) = Inr ''CLARIFIED: inventory web app'' \<and>
    (\<exists>state'. fst (clarify_loop (create_agent_state ''I want to build something'')
                     world_resolved_after_answer) = Inr state' \<and>
       clarified state' \<and> refined_prompt state' = ''inventory web app'' \<and>
       next_node Node_clarify_loop state' = Some Node_refine_prompt))"
proof -
  let ?s = "create_agent_state ''I want to build something''"
  have strip: "strip (drop 10 ''CLARIFIED: inventory web app'') = ''inventory web app''"
    by code_simp
  have a1: "fst (LLMManager world_resolved_at_once) = Inr ()"
    unfolding world_resolved_at_once_def by code_simp
  have a2: "fst (call_gpt4o (snd (LLMManager world_resolved_at_once))) =
              Inr ''CLARIFIED: inventory web app''"
    unfolding world_resolved_at_once_def by code_simp
  have a3: "prefix ''CLARIFIED:'' ''CLARIFIED: inventory web app''"
    by simp
  have b1: "fst (LLMManager world_resolved_after_answer) = Inr ()"
    unfolding world_resolved_after_answer_def by code_simp
  have b2: "fst (call_gpt4o (snd (LLMManager world_resolved_after_answer))) =
              Inr ''QUESTION: what kind of project?''"
    unfolding world_resolved_after_answer_def by code_simp
  have b3: "prefix ''QUESTION:'' ''QUESTION: what kind of project?''"
    by simp
  have b4: "fst (ask_user (snd (call_gpt4o (snd (LLMManager world_resolved_after_answer))))) =
              Inr ''an app''"
    unfolding world_resolved_after_answer_def by code_simp
  have b5: "fst (call_gpt4o (snd (ask_user (snd (call_gpt4o (snd (LLMManager
              world_resolved_after_answer))))))) = Inr ''CLARIFIED: inventory web app''"
    unfolding world_resolved_after_answer_def by code_simp
  have b6: "''an app'' \<noteq> []"
    by simp
  from clarified_marker_ends_loop [OF a1 a2, of ?s] a3
  have A: "\<exists>state'. fst (clarify_loop ?s world_resolved_at_once) = Inr state' \<and>
             clarified state' \<and> refined_prompt state' = ''inventory web app'' \<and>
             next_node Node_clarify_loop state' = Some Node_refine_prompt"
    by (simp only: strip)
  have b: "prefix ''QUESTION:'' ''QUESTION: what kind of project?'' \<and>
     fst (ask_user (snd (call_gpt4o (snd (LLMManager world_resolved_after_answer))))) =
       Inr ''an app'' \<and>
     ''an app'' \<noteq> [] \<and>
     fst (call_gpt4o (snd (ask_user (snd (call_gpt4o (snd (LLMManager
       world_resolved_after_answer))))))) = Inr ''CLARIFIED: inventory web app'' \<and>
     prefix ''CLARIFIED:'' ''CLARIFIED: inventory web app''"
    using b3 b4 b5 b6 a3 by (intro conjI)
  from clarified_marker_ends_loop [OF b1 b2, of ?s, THEN conjunct2, rule_format, OF b]
  have B: "\<exists>state'. fst (clarify_loop ?s world_resolved_after_answer) = Inr state' \<and>
             clarified state' \<and> refined_prompt state' = ''inventory web app'' \<and>
             next_node Node_clarify_loop state' = Some Node_refine_prompt"
    by (simp only: strip)
  from A B a2 a3 b2 b3 b4 b5 show ?thesis
    by (intro conjI)
qed

text \<open>
  C9: a reply that begins with neither \<^verbatim>\<open>CLARIFIED:\<close> nor \<^verbatim>\<open>QUESTION:\<close> takes the
  fallback branch of \<^verbatim>\<open>clarify_loop\<close>: \<^verbatim>\<open>clarified\<close> is set, \<^verbatim>\<open>refined_prompt\<close> is the
  current \<^verbatim>\<open>user_input\<close>, no question is asked, and the graph goes on to
  \<^verbatim>\<open>refine_prompt\<close>. Every error text that the gateway returns when the external call fails
  is such a reply, so a failing completion service ends the loop at once.
\<close>

theorem clarify_fallback_on_unmarked_reply:
  assumes "fst (LLMManager w) = Inr ()"
  shows "(\<forall>response.
            fst (call_gpt4o (snd (LLMManager w))) = Inr response \<and>
            \<not> prefix ''CLARIFIED:'' response \<and> \<not> prefix ''QUESTION:'' response \<longrightarrow>
            (\<exists>state'. fst (clarify_loop state w) = Inr state' \<and> clarified state' \<and>
               refined_prompt state' = user_input state \<and>
               user_input state' = user_input state \<and>
               clarification_questions state' = clarification_questions state \<and>
               next_node Node_clarify_loop state' = Some Node_refine_prompt)) \<and>
         (\<forall>e. call_gpt4o_try (completions_create (snd (LLMManager w))
                                (calls_done (snd (LLMManager w)))) = Inl e \<longrightarrow>
            (\<exists>response.
               fst (call_gpt4o (snd (LLMManager w))) = Inr response \<and>
               \<not> prefix ''CLARIFIED:'' response \<and> \<not> prefix ''QUESTION:'' response) \<and>
            (\<exists>state'. fst (clarify_loop state w) = Inr state' \<and> clarified state' \<and>
               refined_prompt state' = user_input state \<and>
               next_node Node_clarify_loop state' = Some Node_refine_prompt))"
proof -
  have fallback: "\<exists>state'. fst (clarify_loop state w) = Inr state' \<and> clarified state' \<and>
               refined_prompt state' = user_input state \<and>
               user_input state' = user_input state \<and>
               clarification_questions state' = clarification_questions state \<and>
               next_node Node_clarify_loop state' = Some Node_refine_prompt"
    if "fst (call_gpt4o (snd (LLMManager w))) = Inr response"
      and "\<not> prefix ''CLARIFIED:'' response" and "\<not> prefix ''QUESTION:'' response"
    for response
    using that
    by (simp add: clarify_loop_first_reply [OF assms that(1)] Let_def add_step_def
          next_node_def)
  have failure: "fst (call_gpt4o (snd (LLMManager w))) = Inr (''Error calling GPT-4o: '' @ str e)"
    if "call_gpt4o_try (completions_create (snd (LLMManager w))
                          (calls_done (snd (LLMManager w)))) = Inl e" for e
    using that by (simp add: call_gpt4o_def call_gpt4o_result_def)
  have unmarked: "\<not> prefix ''CLARIFIED:'' (''Error calling GPT-4o: '' @ t) \<and>
                  \<not> prefix ''QUESTION:'' (''Error calling GPT-4o: '' @ t)" for t
    by simp
  show ?thesis
    using fallback failure unmarked by blast
qed

theorem clarify_fallback_on_unmarked_reply_witness:
  "fst (LLMManager world_offline) = Inr () \<and>
   call_gpt4o_try (completions_create (snd (LLMManager world_offline))
                     (calls_done (snd (LLMManager world_offline)))) =
     Inl (Exception ''Connection error.'') \<and>
   fst (call_gpt4o (snd (LLMManager world_offline))) =
     Inr ''Error calling GPT-4o: Connection error.'' \<and>
   \<not> prefix ''CLARIFIED:'' ''Error calling GPT-4o: Connection error.'' \<and>
   \<not> prefix ''QUESTION:'' ''Error calling GPT-4o: Connection error.'' \<and>
   (\<exists>state'. fst (clarify_loop (create_agent_state ''I need an app'') world_offline) =
        Inr state' \<and> clarified state' \<and>
      refined_prompt state' = ''I need an app'' \<and>
      next_node Node_clarify_loop state' = Some Node_refine_prompt)"
proof -
  let ?s = "create_agent_state ''I need an app''"
  have 1: "fst (LLMManager world_offline) = Inr ()"
    unfolding world_offline_def by code_simp
  have 2: "call_gpt4o_try (completions_create (snd (LLMManager world_offline))
                     (calls_done (snd (LLMManager world_offline)))) =
             Inl (Exception ''Connection error.'')"
    unfolding world_offline_def by code_simp
  have 3: "fst (call_gpt4o (snd (LLMManager world_offline))) =
             Inr ''Error calling GPT-4o: Connection error.''"
    unfolding world_offline_def by code_simp
  have 4: "\<not> prefix ''CLARIFIED:'' ''Error calling GPT-4o: Connection error.''"
    and 5: "\<not> prefix ''QUESTION:'' ''Error calling GPT-4o: Connection error.''"
    by simp_all
  have 6: "user_input ?s = ''I need an app''"
    by (simp add: create_agent_state_def)
  have c: "fst (call_gpt4o (snd (LLMManager world_offline))) =
             Inr ''Error calling GPT-4o: Connection error.'' \<and>
           \<not> prefix ''CLARIFIED:'' ''Error calling GPT-4o: Connection error.'' \<and>
           \<not> prefix ''QUESTION:'' ''Error calling GPT-4o: Connection error.''"
    using 3 4 5 by (intro conjI)
  from clarify_fallback_on_unmarked_reply [OF 1, of ?s, THEN conjunct1, rule_format, OF c]
  have "\<exists>state'. fst (clarify_loop ?s world_offline) = Inr state' \<and> clarified state' \<and>
          refined_prompt state' = ''I need an app'' \<and>
          next_node Node_clarify_loop state' = Some Node_refine_prompt"
    by (simp only: 6) blast
  with 1 2 3 4 5 show ?thesis
    by (intro conjI)
qed

section \<open>Runs of the graph\<close>

lemmas node_defs = route_prompt_def refine_prompt_def answer_with_llm_def run_claude_code_def
  clarify_loop_def clarify_follow_up_def route_value_of_def add_step_def add_conversation_def

lemma run_node_error_message:
  "run_node n state w = (Inr state', w') \<Longrightarrow> error_message state' = error_message state"
  by (cases n)
     (auto simp: run_node_def node_defs Let_def split: prod.splits sum.splits if_splits option.splits)

lemma run_node_route:
  "run_node n state w = (Inr state', w') \<Longrightarrow> n \<noteq> Node_route_prompt \<Longrightarrow> route state' = route state"
  by (cases n)
     (auto simp: run_node_def node_defs Let_def split: prod.splits sum.splits if_splits option.splits)

lemma route_prompt_sets_route:
  "route_prompt state w = (Inr state', w') \<Longrightarrow> route state' \<noteq> None"
  by (auto simp: node_defs Let_def split: prod.splits sum.splits if_splits option.splits)

lemma run_node_questions:
  "run_node n state w = (Inr state', w') \<Longrightarrow>
     length (clarification_questions state') \<le>
       (if n = Node_clarify_loop then Suc (length (clarification_questions state))
        else length (clarification_questions state))"
  by (cases n)
     (auto simp: run_node_def node_defs Let_def split: prod.splits sum.splits if_splits option.splits)

lemma placeholder_head_not_empty: "placeholder_head \<noteq> []"
  by (simp add: placeholder_head_def)

lemma run_claude_code_final_result: "final_result (run_claude_code state) \<noteq> []"
  by (simp add: run_claude_code_def add_step_def Let_def placeholder_head_not_empty)

lemma same_oracles_refl: "same_oracles w w"
  by (simp add: same_oracles_def)

lemma same_oracles_trans: "same_oracles w w' \<Longrightarrow> same_oracles w' w'' \<Longrightarrow> same_oracles w w''"
  by (auto simp: same_oracles_def)

lemma LLMManager_world: "LLMManager w = (r, w') \<Longrightarrow> same_oracles w w' \<and> calls_done w' = calls_done w"
  by (auto simp: LLMManager_def same_oracles_def)

lemma call_gpt4o_world: "call_gpt4o w = (r, w') \<Longrightarrow> same_oracles w w' \<and> calls_done w' = Suc (calls_done w)"
  by (auto simp: call_gpt4o_def same_oracles_def)

lemma ask_user_world: "ask_user w = (r, w') \<Longrightarrow> same_oracles w w' \<and> calls_done w' = calls_done w"
  by (auto simp: ask_user_def same_oracles_def split: if_splits)

lemma console_print_world: "console_print w = (r, w') \<Longrightarrow> same_oracles w w' \<and> calls_done w' = calls_done w"
  by (auto simp: console_print_def same_oracles_def)

lemma print_action_world: "print_action w = (r, w') \<Longrightarrow> same_oracles w w' \<and> calls_done w' = calls_done w"
  by (auto simp: print_action_def same_oracles_def dest: console_print_world split: if_splits)

lemma print_chunks_world: "print_chunks streamed w = (r, w') \<Longrightarrow> same_oracles w w' \<and> calls_done w' = calls_done w"
  by (auto simp: print_chunks_def same_oracles_def dest: console_print_world split: if_splits)

lemma clarify_follow_up_world:
  "clarify_follow_up state r w = (out, w') \<Longrightarrow> same_oracles w w'"
  by (auto simp: clarify_follow_up_def Let_def split: prod.splits sum.splits if_splits
        dest: call_gpt4o_world)

lemma clarify_loop_world: "clarify_loop state w = (out, w') \<Longrightarrow> same_oracles w w'"
  by (auto simp: clarify_loop_def Let_def split: prod.splits sum.splits if_splits
        dest!: LLMManager_world call_gpt4o_world ask_user_world clarify_follow_up_world
        intro: same_oracles_trans)

lemma one_call_world:
  assumes "LLMManager w = (r1, w1)" and "call_gpt4o w1 = (r2, w2)"
  shows "same_oracles w w2" and "same_oracles w w1"
  using assms LLMManager_world call_gpt4o_world same_oracles_trans by blast+

lemma run_node_world: "run_node n state w = (out, w') \<Longrightarrow> same_oracles w w'"
proof (cases n)
  case Node_clarify_loop
  assume "run_node n state w = (out, w')"
  with Node_clarify_loop show ?thesis
    by (simp add: run_node_def clarify_loop_world)
qed (auto simp: run_node_def route_prompt_def refine_prompt_def answer_with_llm_def Let_def
       same_oracles_refl split: prod.splits sum.splits if_splits dest: one_call_world)

lemma answer_with_llm_result:
  assumes "answer_with_llm state w = (Inr state', w')"
  shows "calls_done w' = Suc (calls_done w) \<and>
         (\<exists>answer. call_gpt4o_result (completions_create w (calls_done w)) = Inr answer \<and>
            final_result state' = strip answer)"
  using assms
  by (auto simp: answer_with_llm_def Let_def LLMManager_def call_gpt4o_def add_step_def
        split: prod.splits sum.splits option.splits)

lemma graph_exec_cases:
  assumes "graph_exec streamed n state w = (Inr state', w')"
  obtains (last) w1 where "run_node n state w = (Inr state', w1)"
      "print_chunks streamed w1 = (Inr (), w')" "next_node n state' = None"
  | (step) state1 w1 w2 n1 where "run_node n state w = (Inr state1, w1)"
      "print_chunks streamed w1 = (Inr (), w2)"
      "next_node n state1 = Some n1" "graph_exec streamed n1 state1 w2 = (Inr state', w')"
  using assms
  by (subst (asm) graph_exec.simps) (auto split: prod.splits sum.splits option.splits)

lemma graph_exec_world: "graph_exec streamed n state w = (out, w') \<Longrightarrow> same_oracles w w'"
proof (induction streamed n state w rule: graph_exec.induct)
  case (1 streamed n state w)
  obtain r1 w1 where r1: "run_node n state w = (r1, w1)"
    by (cases "run_node n state w")
  then have s1: "same_oracles w w1"
    by (rule run_node_world)
  show ?case
  proof (cases r1)
    case (Inl failure)
    with "1.prems" r1 s1 show ?thesis
      by (subst (asm) graph_exec.simps) simp
  next
    case (Inr state1)
    obtain r2 w2 where r2: "print_chunks streamed w1 = (r2, w2)"
      by (cases "print_chunks streamed w1")
    then have s2: "same_oracles w w2"
      using s1 print_chunks_world same_oracles_trans by blast
    show ?thesis
    proof (cases r2)
      case (Inl e)
      with "1.prems" r1 r2 Inr s2 show ?thesis
        by (subst (asm) graph_exec.simps) simp
    next
      case (Inr printed)
      show ?thesis
      proof (cases "next_node n state1")
        case None
        with "1.prems" r1 r2 Inr \<open>r1 = Inr state1\<close> s2 show ?thesis
          by (subst (asm) graph_exec.simps) simp
      next
        case (Some n1)
        with "1.prems" r1 r2 Inr \<open>r1 = Inr state1\<close>
        have "graph_exec streamed n1 state1 w2 = (out, w')"
          by (subst (asm) graph_exec.simps) simp
        with "1.IH" r1 r2 Inr \<open>r1 = Inr state1\<close> Some have "same_oracles w2 w'"
          by (metis (full_types))
        with s2 show ?thesis
          using same_oracles_trans by blast
      qed
    qed
  qed
qed

lemma graph_exec_error_message:
  "graph_exec streamed n state w = (Inr state', w') \<Longrightarrow> error_message state' = error_message state"
proof (induction streamed n state w rule: graph_exec.induct)
  case (1 streamed n state w)
  from "1.prems" show ?case
  proof (cases rule: graph_exec_cases)
    case (last w1)
    then show ?thesis by (simp add: run_node_error_message)
  next
    case (step state1 w1 w2 n1)
    with "1.IH" show ?thesis
      by (metis (full_types) run_node_error_message)
  qed
qed

lemma next_node_None: "next_node n state = None \<longleftrightarrow> n = Node_run_claude_code \<or> n = Node_answer_with_llm"
  by (cases n) (auto simp: next_node_def split: option.splits RouteType.splits)

lemma graph_exec_questions:
  "graph_exec streamed n state w = (Inr state', w') \<Longrightarrow>
   length (clarification_questions state) \<le>
     (if n = Node_route_prompt \<or> n = Node_clarify_loop then 1 else 2) \<Longrightarrow>
   length (clarification_questions state') \<le> 2"
proof (induction streamed n state w rule: graph_exec.induct)
  case (1 streamed n state w)
  from "1.prems"(1) show ?case
  proof (cases rule: graph_exec_cases)
    case (last w1)
    with "1.prems"(2) run_node_questions [OF last(1)] show ?thesis
      by (auto simp: next_node_None)
  next
    case (step state1 w1 w2 n1)
    have "length (clarification_questions state1) \<le>
            (if n1 = Node_route_prompt \<or> n1 = Node_clarify_loop then 1 else 2)"
    proof (cases "n = Node_clarify_loop")
      case True
      show ?thesis
      proof (cases "clarified state1")
        case True
        with \<open>n = Node_clarify_loop\<close> step(3) have "n1 = Node_refine_prompt"
          by (simp add: next_node_def)
        with \<open>n = Node_clarify_loop\<close> run_node_questions [OF step(1)] "1.prems"(2)
        show ?thesis by simp
      next
        case False
        have "clarify_loop state w = (Inr state1, w1)"
          using \<open>n = Node_clarify_loop\<close> step(1) by (simp add: run_node_def)
        from clarify_loop_unresolved [OF this False]
        have "length (clarification_questions state1) < 2"
          by blast
        then show ?thesis by simp
      qed
    next
      case False
      with run_node_questions [OF step(1)] "1.prems"(2) step(3) show ?thesis
        by (cases n) (auto simp: next_node_def split: if_splits)
    qed
    with "1.IH" step show ?thesis
      by (metis (full_types))
  qed
qed

lemma graph_exec_after_routing:
  "graph_exec streamed n state w = (Inr state', w') \<Longrightarrow> n \<noteq> Node_route_prompt \<Longrightarrow>
   route state' = route state \<and> (n \<noteq> Node_answer_with_llm \<longrightarrow> final_result state' \<noteq> [])"
proof (induction streamed n state w rule: graph_exec.induct)
  case (1 streamed n state w)
  from "1.prems"(1) show ?case
  proof (cases rule: graph_exec_cases)
    case (last w1)
    with "1.prems"(2) run_node_route [OF last(1)] show ?thesis
      by (auto simp: next_node_None run_node_def run_claude_code_final_result)
  next
    case (step state1 w1 w2 n1)
    from step(3) "1.prems"(2) have n1: "n1 \<noteq> Node_route_prompt" "n1 \<noteq> Node_answer_with_llm"
      by (cases n; auto simp: next_node_def split: if_splits)+
    from "1.IH" step n1
    have "route state' = route state1 \<and> final_result state' \<noteq> []"
      by (metis (full_types))
    with run_node_route [OF step(1) "1.prems"(2)] show ?thesis
      by simp
  qed
qed

text \<open>
  A run from the entry point that returns has set a route. Unless the route is ANSWER the
  final result is the placeholder text, which is not empty; on the route ANSWER it is the
  stripped text of the last completion call of the run.
\<close>

lemma graph_exec_from_entry:
  assumes "graph_exec streamed Node_route_prompt state w = (Inr state', w')"
  shows "route state' \<noteq> None \<and>
         (route state' \<noteq> Some ANSWER \<longrightarrow> final_result state' \<noteq> []) \<and>
         (route state' = Some ANSWER \<longrightarrow>
            0 < calls_done w' \<and>
            (\<exists>answer. call_gpt4o_result (completions_create w (calls_done w' - 1)) = Inr answer \<and>
               final_result state' = strip answer))"
  using assms
proof (cases rule: graph_exec_cases)
  case (last w1)
  then show ?thesis by (simp add: next_node_None)
next
  case (step state1 w1 w2 n1)
  from step(1) have r: "route state1 \<noteq> None"
    by (simp add: run_node_def route_prompt_sets_route)
  from step(3) have n1: "n1 \<noteq> Node_route_prompt"
    and a: "route state1 \<noteq> Some ANSWER \<longrightarrow> n1 \<noteq> Node_answer_with_llm"
    and b: "route state1 = Some ANSWER \<longrightarrow> n1 = Node_answer_with_llm"
    by (auto simp: next_node_def split: option.splits RouteType.splits)
  from graph_exec_after_routing [OF step(4) n1]
  have keep: "route state' = route state1"
    and fr: "n1 \<noteq> Node_answer_with_llm \<longrightarrow> final_result state' \<noteq> []"
    by simp_all
  have "0 < calls_done w' \<and>
        (\<exists>answer. call_gpt4o_result (completions_create w (calls_done w' - 1)) = Inr answer \<and>
           final_result state' = strip answer)"
    if "route state' = Some ANSWER"
  proof -
    from that keep b have n1: "n1 = Node_answer_with_llm"
      by simp
    from step(4) show ?thesis
    proof (cases rule: graph_exec_cases)
      case (last w3)
      from last(1) n1 have ans: "answer_with_llm state1 w2 = (Inr state', w3)"
        by (simp add: run_node_def)
      have "same_oracles w w1" "same_oracles w1 w2"
        using step(1,2) run_node_world print_chunks_world by blast+
      then have o: "completions_create w2 = completions_create w"
        by (simp add: same_oracles_def)
      from print_chunks_world [OF last(2)] have c: "calls_done w' = calls_done w3"
        by simp
      from answer_with_llm_result [OF ans] o c show ?thesis
        by auto
    next
      case (step state2 w3 w4 n2)
      with n1 show ?thesis
        by (simp add: next_node_def)
    qed
  qed
  with r a keep fr show ?thesis
    by auto
qed

section \<open>The bound on clarification rounds\<close>

text \<open>
  In one run of the graph that starts with no question asked, at most two clarification
  questions are asked.
\<close>

lemma questions_in_one_run:
  assumes "graph_exec streamed Node_route_prompt state w = (Inr state', w')"
    and "clarification_questions state = []"
  shows "length (clarification_questions state') \<le> 2"
  using graph_exec_questions [OF assms(1)] assms(2) by simp

text \<open>
  The run by \<^verbatim>\<open>graph.invoke\<close> after a streamed run that has raised starts with the questions
  that the streamed run has asked. Here the streamed run asks two questions and raises,
  and the second run asks a third before the resolution is forced.
\<close>

lemma third_question_after_failed_stream:
  "map_sum id (\<lambda>state. (length (clarification_questions state), clarified state))
     (fst (run_graph (request_state [] ''I want to build something'') world_console_recovers)) =
   Inr (3, True)"
  unfolding world_console_recovers_def by code_simp

text \<open>
  The forced resolution: when the follow-up reply does not begin with \<^verbatim>\<open>CLARIFIED:\<close> and
  a question has been asked before this round, \<^verbatim>\<open>clarified\<close> is set. \<^verbatim>\<open>user_input\<close> has by
  then been extended with the user's reply, and \<^verbatim>\<open>refined_prompt\<close> is that extended input
  followed by the reply once more.
\<close>

lemma forced_resolution:
  assumes "fst (LLMManager w) = Inr ()"
    and "fst (call_gpt4o (snd (LLMManager w))) = Inr response"
    and "prefix ''QUESTION:'' response"
    and "fst (ask_user (snd (call_gpt4o (snd (LLMManager w))))) = Inr user_response"
    and "user_response \<noteq> []"
    and "fst (call_gpt4o (snd (ask_user (snd (call_gpt4o (snd (LLMManager w))))))) =
           Inr follow_up"
    and "\<not> prefix ''CLARIFIED:'' follow_up"
    and "clarification_questions state \<noteq> []"
  shows "\<exists>state'. fst (clarify_loop state w) = Inr state' \<and> clarified state' \<and>
           user_input state' = user_input state @ '' - '' @ user_response \<and>
           refined_prompt state' =
             user_input state @ '' - '' @ user_response @ '' - '' @ user_response"
proof -
  let ?w2 = "snd (call_gpt4o (snd (LLMManager w)))"
  obtain w3 where 3: "ask_user ?w2 = (Inr user_response, w3)"
    using assms(4) by (cases "ask_user ?w2") auto
  obtain w4 where 4: "call_gpt4o w3 = (Inr follow_up, w4)"
    using assms(6) 3 by (cases "call_gpt4o w3") auto
  have "Suc (length (clarification_questions state)) \<ge> 2"
    using assms(8) by (cases "clarification_questions state") auto
  with assms(3,5,7) QUESTION_not_CLARIFIED [OF assms(3)] show ?thesis
    by (simp add: clarify_loop_first_reply [OF assms(1,2)] Let_def 3 4 clarify_follow_up_def
          add_step_def add_conversation_def)
qed

text \<open>
  C2 at a concrete second round. The request ''I want to build something'' has been
  answered once with ''an app''; the second question is answered with ''web'' and the
  follow-up reply is a question again. The loop is forced to end with two questions asked,
  and \<^verbatim>\<open>refined_prompt\<close> ends with the last reply twice.
\<close>

theorem forced_resolution_repeats_reply:
  "map_sum id (\<lambda>state. (clarified state, length (clarification_questions state),
                         user_input state, refined_prompt state))
     (fst (clarify_loop second_round_state world_second_round)) =
   Inr (True, 2, ''I want to build something - an app - web'',
        ''I want to build something - an app - web - web'')"
  unfolding second_round_state_def world_second_round_def by code_simp

section \<open>Processing a request\<close>

lemma process_request_unfold:
  "process_request memory input w =
     (case console_print w of
        (Inl e, w1) \<Rightarrow> (Inl e, memory, w1)
      | (Inr printed, w1) \<Rightarrow>
          (case process_request_try memory (request_state memory input) w1 of
             (Inr result, memory', w2) \<Rightarrow> (Inr result, memory', w2)
           | (Inl e, memory', w2) \<Rightarrow>
               (case console_print w2 of
                  (Inl e', w3) \<Rightarrow> (Inl e', memory', w3)
                | (Inr printed, w3) \<Rightarrow> (Inr (error_result e), memory', w3))))"
  by (auto simp: process_request_def request_state_def Let_def split: prod.splits sum.splits)

lemma request_state_error_message: "error_message (request_state memory input) = []"
  by (simp add: request_state_def create_agent_state_def add_step_def add_conversation_def)

lemma route_value_answer: "route_value r = ''answer'' \<longleftrightarrow> r = ANSWER"
  by (cases r) simp_all

text \<open>What a run of the graph inside the \<^verbatim>\<open>try\<close> block returns when it returns.\<close>

lemma run_graph_success:
  assumes "run_graph initial_state w = (Inr final_state, w')"
    and "error_message initial_state = []"
  shows "same_oracles w w' \<and> error_message final_state = [] \<and> route final_state \<noteq> None \<and>
         (route final_state \<noteq> Some ANSWER \<longrightarrow> final_result final_state \<noteq> []) \<and>
         (route final_state = Some ANSWER \<longrightarrow>
            0 < calls_done w' \<and>
            (\<exists>answer. call_gpt4o_result (completions_create w (calls_done w' - 1)) = Inr answer \<and>
               final_result final_state = strip answer))"
proof (cases "graph_exec True Node_route_prompt initial_state w")
  case (Pair out w1)
  show ?thesis
  proof (cases out)
    case (Inr state1)
    with Pair assms(1) have run: "graph_exec True Node_route_prompt initial_state w = (Inr final_state, w')"
      by (simp add: run_graph_def)
    from graph_exec_world [OF run] graph_exec_error_message [OF run]
      graph_exec_from_entry [OF run] assms(2)
    show ?thesis by simp
  next
    case (Inl failure)
    obtain e1 failed where f: "failure = (e1, failed)"
      by (cases failure)
    obtain p w2 where p: "print_action w1 = (p, w2)"
      by (cases "print_action w1")
    from Pair Inl f p assms(1)
    have run: "graph_exec False Node_route_prompt (after_failed_stream initial_state failed) w2 =
                 (Inr final_state, w')"
      by (auto simp: run_graph_def split: sum.splits prod.splits)
    have o: "same_oracles w w2"
      using graph_exec_world [OF Pair] print_action_world [OF p] same_oracles_trans by blast
    then have c: "completions_create w2 = completions_create w"
      by (simp add: same_oracles_def)
    have em: "error_message (after_failed_stream initial_state failed) = []"
      using assms(2) by (simp add: after_failed_stream_def)
    from graph_exec_world [OF run] graph_exec_error_message [OF run]
      graph_exec_from_entry [OF run] em o c
    show ?thesis
      using same_oracles_trans by auto
  qed
qed

lemma process_request_try_success:
  assumes "process_request_try memory initial_state w = (Inr result, memory', w')"
    and "error_message initial_state = []"
  shows "\<exists>final_state.
           result = success_result final_state \<and> error_message final_state = [] \<and>
           route final_state \<noteq> None \<and>
           (route final_state \<noteq> Some ANSWER \<longrightarrow> final_result final_state \<noteq> []) \<and>
           (route final_state = Some ANSWER \<longrightarrow>
              (\<exists>answer. call_gpt4o_result (completions_create w (calls_done w' - 1)) = Inr answer \<and>
                 final_result final_state = strip answer))"
proof -
  from assms(1) obtain w1 final_state w2 w3 where
    1: "console_print w = (Inr (), w1)"
    and 2: "run_graph initial_state w1 = (Inr final_state, w2)"
    and 3: "console_print w2 = (Inr (), w3)"
    and 4: "console_print w3 = (Inr (), w')"
    and r: "result = success_result final_state"
    by (auto simp: process_request_try_def split: prod.splits sum.splits)
  from console_print_world [OF 1] have o: "completions_create w1 = completions_create w"
    by (simp add: same_oracles_def)
  from console_print_world [OF 3] console_print_world [OF 4]
  have c: "calls_done w' = calls_done w2"
    by simp
  from run_graph_success [OF 2 assms(2)] o c r show ?thesis
    by auto
qed

text \<open>
  C1, as the code has it. When \<^verbatim>\<open>process_request\<close> returns a dictionary with \<^verbatim>\<open>success\<close>
  true, \<^verbatim>\<open>error_message\<close> is the empty string (no node ever sets it); \<^verbatim>\<open>final_result\<close> is not
  empty unless the route taken is \<^verbatim>\<open>answer\<close>, and on that route it is the stripped text
  that the gateway returned for the last completion call. When \<^verbatim>\<open>success\<close> is false,
  \<^verbatim>\<open>final_result\<close> is empty, the dictionary has no \<^verbatim>\<open>error_message\<close> key, and the text of the
  exception that the \<^verbatim>\<open>try\<close> block raised is under \<^verbatim>\<open>error\<close>.
\<close>

theorem process_request_outcome:
  assumes "fst (process_request memory input w) = Inr result"
  shows "(result ''success'' = Some (Bool True) \<and> result ''error_message'' = Some (Str []) \<and>
          result ''error'' = None \<and>
          (\<exists>route_taken final.
             result ''route_taken'' = Some (Str route_taken) \<and>
             result ''final_result'' = Some (Str final) \<and>
             (route_taken \<noteq> ''answer'' \<longrightarrow> final \<noteq> []) \<and>
             (route_taken = ''answer'' \<longrightarrow>
                (\<exists>answer.
                   call_gpt4o_result
                     (completions_create w
                        (calls_done (snd (snd (process_request memory input w))) - 1)) =
                     Inr answer \<and>
                   final = strip answer)))) \<or>
         (result ''success'' = Some (Bool False) \<and> result ''final_result'' = Some (Str []) \<and>
          result ''error_message'' = None \<and>
          (\<exists>e. fst (process_request_try memory (request_state memory input)
                      (snd (console_print w))) = Inl e \<and>
             result ''error'' = Some (Str (str e))))"
proof -
  from assms obtain w1 where 1: "console_print w = (Inr (), w1)"
    by (auto simp: process_request_unfold split: prod.splits sum.splits)
  obtain out memory' w2 where t: "process_request_try memory (request_state memory input) w1 =
      (out, memory', w2)"
    by (cases "process_request_try memory (request_state memory input) w1")
  from console_print_world [OF 1] have o: "completions_create w1 = completions_create w"
    by (simp add: same_oracles_def)
  show ?thesis
  proof (cases out)
    case (Inr res)
    with assms 1 t have r: "res = result"
      and w: "snd (snd (process_request memory input w)) = w2"
      by (simp_all add: process_request_unfold)
    from process_request_try_success [OF t [unfolded Inr] request_state_error_message]
    obtain final_state where f: "res = success_result final_state"
      "error_message final_state = []" "route final_state \<noteq> None"
      "route final_state \<noteq> Some ANSWER \<longrightarrow> final_result final_state \<noteq> []"
      "route final_state = Some ANSWER \<longrightarrow>
         (\<exists>answer. call_gpt4o_result (completions_create w1 (calls_done w2 - 1)) = Inr answer \<and>
            final_result final_state = strip answer)"
      by blast
    from f(3) obtain r' where r': "route final_state = Some r'"
      by auto
    have "result ''success'' = Some (Bool True) \<and> result ''error_message'' = Some (Str []) \<and>
          result ''error'' = None \<and>
          result ''route_taken'' = Some (Str (route_value r')) \<and>
          result ''final_result'' = Some (Str (final_result final_state))"
      using f(1,2) r r' by (simp add: success_result_def)
    moreover have "route_value r' \<noteq> ''answer'' \<longrightarrow> final_result final_state \<noteq> []"
      using f(4) r' by (simp add: route_value_answer)
    moreover have "route_value r' = ''answer'' \<longrightarrow>
        (\<exists>answer.
           call_gpt4o_result
             (completions_create w
                (calls_done (snd (snd (process_request memory input w))) - 1)) = Inr answer \<and>
           final_result final_state = strip answer)"
      using f(5) r' o w by (simp add: route_value_answer)
    ultimately show ?thesis
      by blast
  next
    case (Inl e)
    with assms 1 t have "result = error_result e"
      by (auto simp: process_request_unfold split: prod.splits sum.splits)
    moreover have "fst (process_request_try memory (request_state memory input)
                          (snd (console_print w))) = Inl e"
      using 1 t Inl by simp
    ultimately show ?thesis
      by (auto simp: error_result_def)
  qed
qed

lemma returned_dictionary:
  assumes "propagated r = None"
  shows "\<exists>result. fst r = Inr result \<and> (\<forall>key. returned r key = result key)"
  using assms by (cases "fst r") (auto simp: propagated_def returned_def)

theorem process_request_outcome_witness:
  "propagated (process_request [] ''Build an inventory app'' world_code) = None \<and>
   returned (process_request [] ''Build an inventory app'' world_code) ''success'' =
     Some (Bool True) \<and>
   returned (process_request [] ''Build an inventory app'' world_code) ''route_taken'' =
     Some (Str ''code'') \<and>
   returned (process_request [] ''Build an inventory app'' world_code) ''error_message'' =
     Some (Str []) \<and>
   (\<exists>final. final \<noteq> [] \<and>
      returned (process_request [] ''Build an inventory app'' world_code) ''final_result'' =
        Some (Str final)) \<and>
   propagated (process_request [] ''What is REST?'' world_answer) = None \<and>
   returned (process_request [] ''What is REST?'' world_answer) ''route_taken'' =
     Some (Str ''answer'') \<and>
   call_gpt4o_result
     (completions_create world_answer
        (calls_done (snd (snd (process_request [] ''What is REST?'' world_answer))) - 1)) =
     Inr ''REST is an architectural style.'' \<and>
   returned (process_request [] ''What is REST?'' world_answer) ''final_result'' =
     Some (Str ''REST is an architectural style.'')"
proof -
  let ?p = "process_request [] ''Build an inventory app'' world_code"
  let ?q = "process_request [] ''What is REST?'' world_answer"
  have p0: "propagated ?p = None"
    unfolding world_code_def by code_simp
  have ps: "returned ?p ''success'' = Some (Bool True)"
    unfolding world_code_def by code_simp
  have pr: "returned ?p ''route_taken'' = Some (Str ''code'')"
    unfolding world_code_def by code_simp
  from returned_dictionary [OF p0] obtain result where res: "fst ?p = Inr result"
    and get: "\<forall>key. returned ?p key = result key"
    by blast
  from process_request_outcome [OF res] ps pr
  have "result ''error_message'' = Some (Str [])"
    and "\<exists>final. final \<noteq> [] \<and> result ''final_result'' = Some (Str final)"
    by (auto simp: get)
  then have P: "returned ?p ''error_message'' = Some (Str [])"
    "\<exists>final. final \<noteq> [] \<and> returned ?p ''final_result'' = Some (Str final)"
    by (simp_all add: get)
  have q0: "propagated ?q = None"
    unfolding world_answer_def by code_simp
  have qs: "returned ?q ''success'' = Some (Bool True)"
    unfolding world_answer_def by code_simp
  have qr: "returned ?q ''route_taken'' = Some (Str ''answer'')"
    unfolding world_answer_def by code_simp
  have qa: "call_gpt4o_result
     (completions_create world_answer (calls_done (snd (snd ?q)) - 1)) =
     Inr ''REST is an architectural style.''"
    unfolding world_answer_def by code_simp
  have st: "strip ''REST is an architectural style.'' = ''REST is an architectural style.''"
    by code_simp
  from returned_dictionary [OF q0] obtain result' where res': "fst ?q = Inr result'"
    and get': "\<forall>key. returned ?q key = result' key"
    by blast
  from process_request_outcome [OF res'] qs qr qa
  have "result' ''final_result'' = Some (Str (strip ''REST is an architectural style.''))"
    by (auto simp: get')
  then have Q: "returned ?q ''final_result'' = Some (Str ''REST is an architectural style.'')"
    by (simp add: get' st)
  from p0 ps pr P q0 qr qa Q show ?thesis
    by (intro conjI)
qed

text \<open>
  The request is routed to a direct answer and the completion service answers with the
  empty string: the run is a success, and \<^verbatim>\<open>final_result\<close> and \<^verbatim>\<open>error_message\<close> are both
  empty.
\<close>

theorem empty_answer_leaves_both_fields_empty:
  "returned (process_request [] ''What is the difference between REST and GraphQL?''
               world_empty_answer) ''success'' = Some (Bool True) \<and>
   returned (process_request [] ''What is the difference between REST and GraphQL?''
               world_empty_answer) ''final_result'' = Some (Str []) \<and>
   returned (process_request [] ''What is the difference between REST and GraphQL?''
               world_empty_answer) ''error_message'' = Some (Str [])"
  unfolding world_empty_answer_def by code_simp

lemma console_works:
  assumes "console_output w = (\<lambda>k. None)"
  shows "fst (console_print w) = Inr ()" and "fst (print_action w) = Inr ()"
    and "console_output (snd (console_print w)) = (\<lambda>k. None)"
  using assms by (simp_all add: console_print_def print_action_def)

text \<open>
  C10, as the code has it. An exception reaches the caller of \<^verbatim>\<open>process_request\<close> only
  from the console: from the prints before the \<^verbatim>\<open>try\<close> block, or from the prints of the
  handler after the \<^verbatim>\<open>try\<close> block has raised. With a console that accepts every line
  \<^verbatim>\<open>process_request\<close> returns a dictionary: that of the streamed run when it returns;
  otherwise that of the second run, which \<^verbatim>\<open>graph.invoke\<close> starts from the lists that the
  failed run has extended; and when the second run raises too, the dictionary with
  \<^verbatim>\<open>success\<close> false, the text of the second exception under \<^verbatim>\<open>error\<close>, an empty
  \<^verbatim>\<open>final_result\<close> and \<^verbatim>\<open>route_taken\<close> equal to \<^verbatim>\<open>error\<close>.
\<close>

theorem process_request_exceptions:
  "(\<forall>e. fst (process_request memory input w) = Inl e \<longrightarrow>
      fst (console_print w) = Inl e \<or>
      (\<exists>e0. fst (process_request_try memory (request_state memory input)
                   (snd (console_print w))) = Inl e0 \<and>
         fst (console_print
                (snd (snd (process_request_try memory (request_state memory input)
                             (snd (console_print w)))))) = Inl e)) \<and>
   (console_output w = (\<lambda>k. None) \<longrightarrow>
      (\<exists>result. fst (process_request memory input w) = Inr result \<and>
         (case fst (first_run memory input w) of
            Inr final_state \<Rightarrow> result = success_result final_state
          | Inl (e1, failed) \<Rightarrow>
              (case fst (second_run memory input failed w) of
                 Inr final_state \<Rightarrow> result = success_result final_state
               | Inl (e2, failed') \<Rightarrow> result = error_result e2))))"
proof (intro conjI allI impI)
  fix e
  assume "fst (process_request memory input w) = Inl e"
  then show "fst (console_print w) = Inl e \<or>
      (\<exists>e0. fst (process_request_try memory (request_state memory input)
                   (snd (console_print w))) = Inl e0 \<and>
         fst (console_print
                (snd (snd (process_request_try memory (request_state memory input)
                             (snd (console_print w)))))) = Inl e)"
    by (auto simp: process_request_unfold split: prod.splits sum.splits)
next
  assume c: "console_output w = (\<lambda>k. None)"
  let ?init = "request_state memory input"
  obtain w1 where 1: "console_print w = (Inr (), w1)" and c1: "console_output w1 = (\<lambda>k. None)"
    using console_works(1,3) [OF c] by (cases "console_print w") auto
  obtain w2 where 2: "console_print w1 = (Inr (), w2)" and c2: "console_output w2 = (\<lambda>k. None)"
    using console_works(1,3) [OF c1] by (cases "console_print w1") auto
  have first: "first_run memory input w = graph_exec True Node_route_prompt ?init w2"
    by (simp add: first_run_def 1 2)
  obtain out1 w3 where r1: "graph_exec True Node_route_prompt ?init w2 = (out1, w3)"
    by (cases "graph_exec True Node_route_prompt ?init w2")
  have c3: "console_output w3 = (\<lambda>k. None)"
    using graph_exec_world [OF r1] c2 by (simp add: same_oracles_def)
  have closing: "\<exists>result. fst (process_request memory input w) = Inr result \<and>
                   result = success_result final_state"
    if rg: "run_graph ?init w2 = (Inr final_state, w')"
      and co: "console_output w' = (\<lambda>k. None)"
    for final_state w'
  proof -
    obtain w'' where a: "console_print w' = (Inr (), w'')"
      and "console_output w'' = (\<lambda>k. None)"
      using console_works(1,3) [OF co] by (cases "console_print w'") auto
    then obtain w''' where b: "console_print w'' = (Inr (), w''')"
      using console_works(1) [of w''] by (cases "console_print w''") auto
    show ?thesis
      by (simp add: process_request_unfold process_request_try_def 1 2 rg a b)
  qed
  show "\<exists>result. fst (process_request memory input w) = Inr result \<and>
         (case fst (first_run memory input w) of
            Inr final_state \<Rightarrow> result = success_result final_state
          | Inl (e1, failed) \<Rightarrow>
              (case fst (second_run memory input failed w) of
                 Inr final_state \<Rightarrow> result = success_result final_state
               | Inl (e2, failed') \<Rightarrow> result = error_result e2))"
  proof (cases out1)
    case (Inr final_state)
    with r1 have "run_graph ?init w2 = (Inr final_state, w3)"
      by (simp add: run_graph_def)
    from closing [OF this c3] Inr r1 show ?thesis
      by (simp add: first)
  next
    case (Inl failure)
    obtain e1 failed where f: "failure = (e1, failed)"
      by (cases failure)
    obtain w4 where 4: "print_action w3 = (Inr (), w4)"
      using console_works(2) [OF c3] by (cases "print_action w3") auto
    have c4: "console_output w4 = (\<lambda>k. None)"
      using print_action_world [OF 4] c3 by (simp add: same_oracles_def)
    have second: "second_run memory input failed w =
        graph_exec False Node_route_prompt (after_failed_stream ?init failed) w4"
      by (simp add: second_run_def first r1 4)
    obtain out2 w5 where r2:
      "graph_exec False Node_route_prompt (after_failed_stream ?init failed) w4 = (out2, w5)"
      by (cases "graph_exec False Node_route_prompt (after_failed_stream ?init failed) w4")
    have c5: "console_output w5 = (\<lambda>k. None)"
      using graph_exec_world [OF r2] c4 by (simp add: same_oracles_def)
    show ?thesis
    proof (cases out2)
      case (Inr final_state)
      with r1 Inl f 4 r2 have "run_graph ?init w2 = (Inr final_state, w5)"
        by (simp add: run_graph_def)
      from closing [OF this c5] Inr Inl f r1 r2 show ?thesis
        by (simp add: first second)
    next
      case (Inl failure2)
      obtain e2 failed' where f2: "failure2 = (e2, failed')"
        by (cases failure2)
      from r1 \<open>out1 = Inl failure\<close> f 4 r2 Inl f2
      have g: "run_graph ?init w2 = (Inl e2, w5)"
        by (simp add: run_graph_def)
      obtain w6 where 6: "console_print w5 = (Inr (), w6)"
        using console_works(1) [OF c5] by (cases "console_print w5") auto
      have "fst (process_request memory input w) = Inr (error_result e2)"
        by (simp add: process_request_unfold process_request_try_def 1 2 g 6)
      with Inl f2 \<open>out1 = Inl failure\<close> f r1 r2 show ?thesis
        by (simp add: first second)
    qed
  qed
qed

theorem process_request_exceptions_witness:
  "propagated (process_request [] ''What is REST?'' world_console_broken) =
     Some (Exception ''[Errno 32] Broken pipe'') \<and>
   fst (console_print world_console_broken) = Inl (Exception ''[Errno 32] Broken pipe'') \<and>
   console_output world_no_console = (\<lambda>k. None) \<and>
   (case fst (first_run [] ''I want to build something'' world_no_console) of
      Inr final_state \<Rightarrow> False
    | Inl (e1, failed) \<Rightarrow>
        e1 = Exception ''EOF when reading a line'' \<and>
        raised (second_run [] ''I want to build something'' failed world_no_console) =
          Some (Exception ''EOF when reading a line'')) \<and>
   fst (process_request [] ''I want to build something'' world_no_console) =
     Inr (error_result (Exception ''EOF when reading a line''))"
proof -
  let ?p = "process_request [] ''What is REST?'' world_console_broken"
  let ?q = "process_request [] ''I want to build something'' world_no_console"
  have p: "propagated ?p = Some (Exception ''[Errno 32] Broken pipe'')"
    unfolding world_console_broken_def by code_simp
  then have pe: "fst ?p = Inl (Exception ''[Errno 32] Broken pipe'')"
    by (cases "fst ?p") (simp_all add: propagated_def)
  have nt: "propagated (process_request_try [] (request_state [] ''What is REST?'')
                          (snd (console_print world_console_broken))) =
              Some (Exception ''[Errno 32] Broken pipe'')"
    unfolding world_console_broken_def by code_simp
  have cb: "fst (console_print world_console_broken) = Inl (Exception ''[Errno 32] Broken pipe'')"
    unfolding world_console_broken_def by code_simp
  have c: "console_output world_no_console = (\<lambda>k. None)"
    by (simp add: world_no_console_def scripted_world_def)
  have f: "(case fst (first_run [] ''I want to build something'' world_no_console) of
      Inr final_state \<Rightarrow> False
    | Inl (e1, failed) \<Rightarrow>
        e1 = Exception ''EOF when reading a line'' \<and>
        raised (second_run [] ''I want to build something'' failed world_no_console) =
          Some (Exception ''EOF when reading a line''))"
    unfolding world_no_console_def by code_simp
  from process_request_exceptions [of "[]" "''I want to build something''" world_no_console] c
  obtain result where r: "fst ?q = Inr result"
    and alt: "(case fst (first_run [] ''I want to build something'' world_no_console) of
            Inr final_state \<Rightarrow> result = success_result final_state
          | Inl (e1, failed) \<Rightarrow>
              (case fst (second_run [] ''I want to build something'' failed world_no_console) of
                 Inr final_state \<Rightarrow> result = success_result final_state
               | Inl (e2, failed') \<Rightarrow> result = error_result e2))"
    by blast
  from f obtain e1 failed where
    fr: "fst (first_run [] ''I want to build something'' world_no_console) = Inl (e1, failed)"
    and sr: "raised (second_run [] ''I want to build something'' failed world_no_console) =
               Some (Exception ''EOF when reading a line'')"
    by (auto split: sum.splits prod.splits)
  from sr obtain failed' where
    "fst (second_run [] ''I want to build something'' failed world_no_console) =
       Inl (Exception ''EOF when reading a line'', failed')"
    by (auto simp: raised_def split: sum.splits prod.splits)
  with alt fr have "result = error_result (Exception ''EOF when reading a line'')"
    by simp
  with r have q: "fst ?q = Inr (error_result (Exception ''EOF when reading a line''))"
    by simp
  from process_request_exceptions [of "[]" "''What is REST?''" world_console_broken] pe
  have "fst (console_print world_console_broken) = Inl (Exception ''[Errno 32] Broken pipe'') \<or>
      (\<exists>e0. fst (process_request_try [] (request_state [] ''What is REST?'')
                   (snd (console_print world_console_broken))) = Inl e0 \<and>
         fst (console_print
                (snd (snd (process_request_try [] (request_state [] ''What is REST?'')
                             (snd (console_print world_console_broken)))))) =
           Inl (Exception ''[Errno 32] Broken pipe''))"
    by blast
  with p cb c f q show ?thesis
    by (intro conjI)
qed

text \<open>
  Standard input is closed. The streamed run raises \<^verbatim>\<open>EOFError\<close> at the clarification
  question; the second run is routed to a direct answer and completes, and the dictionary
  returned has \<^verbatim>\<open>success\<close> true.
\<close>

theorem exception_in_streamed_run_then_success:
  "raised (first_run [] ''I want to build something'' world_stdin_closed) =
     Some (Exception ''EOF when reading a line'') \<and>
   returned (process_request [] ''I want to build something'' world_stdin_closed) ''success'' =
     Some (Bool True) \<and>
   returned (process_request [] ''I want to build something'' world_stdin_closed) ''route_taken'' =
     Some (Str ''answer'') \<and>
   returned (process_request [] ''I want to build something'' world_stdin_closed) ''error'' = None"
  unfolding world_stdin_closed_def by code_simp

section \<open>The completion gateway\<close>

text \<open>
  C6: \<^verbatim>\<open>call_gpt4o\<close> never raises. Whatever the external call does, it returns a string, and
  when the call fails (the request raises, or the response has no choice or a null
  content) the string is the error text \<^verbatim>\<open>Error calling GPT-4o: \<close> followed by the
  exception's text.
\<close>

theorem call_gpt4o_never_raises:
  "(\<exists>text. fst (call_gpt4o w) = Inr text) \<and>
   (\<forall>e. call_gpt4o_try (completions_create w (calls_done w)) = Inl e \<longrightarrow>
        fst (call_gpt4o w) = Inr (''Error calling GPT-4o: '' @ str e))"
  by (simp add: call_gpt4o_def call_gpt4o_result_def split: sum.split)


theorem call_gpt4o_never_raises_witness:
  "call_gpt4o_try (completions_create (scripted_world (replies []) [])
                     (calls_done (scripted_world (replies []) []))) =
     Inl (Exception ''Connection error.'') \<and>
   fst (call_gpt4o (scripted_world (replies []) [])) =
     Inr ''Error calling GPT-4o: Connection error.''"
proof -
  have 1: "call_gpt4o_try (completions_create (scripted_world (replies []) [])
                     (calls_done (scripted_world (replies []) []))) =
             Inl (Exception ''Connection error.'')"
    by (simp add: call_gpt4o_try_def scripted_world_def replies_def script_def)
  show ?thesis
    using call_gpt4o_never_raises [of "scripted_world (replies []) []"] 1
    by simp
qed

section \<open>The session manager\<close>

lemma remove_absent: "d key = None \<Longrightarrow> d(key := None) = d"
  by auto

lemma remove_session_result:
  "remove_session self session_id =
     Inr (self\<lparr>sessions := (sessions self)(session_id := None),
               active_connections := (active_connections self)(session_id := None)\<rparr>)"
  by (auto simp: remove_session_def dict_pop_def remove_absent split: option.splits)

text \<open>
  C7: \<^verbatim>\<open>remove_session\<close> is idempotent. It never raises; it removes the id from both maps;
  removing the same id again changes nothing more; and removing an id that is in neither
  map leaves the manager as it was.
\<close>

theorem remove_session_idempotent:
  "\<exists>once. remove_session self session_id = Inr once \<and>
     sessions once = (sessions self)(session_id := None) \<and>
     active_connections once = (active_connections self)(session_id := None) \<and>
     remove_session once session_id = Inr once \<and>
     (session_id \<notin> dom (sessions self) \<and> session_id \<notin> dom (active_connections self) \<longrightarrow>
        once = self)"
  by (auto simp: remove_session_result remove_absent)

theorem remove_session_idempotent_witness:
  "''9a2e'' \<notin> dom (sessions one_session) \<and>
   ''9a2e'' \<notin> dom (active_connections one_session) \<and>
   remove_session one_session ''9a2e'' = Inr one_session \<and>
   sessions one_session ''4f1c'' = Some \<lparr>agent = [], created_at = 0, message_count = 3\<rparr>"
proof -
  have 1: "''9a2e'' \<notin> dom (sessions one_session)"
    and 2: "''9a2e'' \<notin> dom (active_connections one_session)"
    by (simp_all add: one_session_def)
  have 3: "sessions one_session ''4f1c'' =
             Some \<lparr>agent = [], created_at = 0, message_count = 3\<rparr>"
    by (simp add: one_session_def)
  from remove_session_idempotent [of one_session "''9a2e''"] 1 2
  have "remove_session one_session ''9a2e'' = Inr one_session"
    by auto
  with 1 2 3 show ?thesis
    by (intro conjI)
qed


end
